theory Spec2Isabelle
  imports Complex_Main
begin

section \<open>Multi-branch networks with gated fusion: data model\<close>

text \<open>
  The repository defines three PyTorch modules: \<open>DenseNet\<close> (densenet_one.py),
  \<open>MobileNetV2\<close> (mobilenetv2_one.py) and \<open>MutualNet\<close> (DML.py). Their own logic is the
  fan-out of a shared trunk output to \<open>num_branches\<close> classification heads, the stacking of
  the heads' logits and the fusion of the stack.

  Tensors are nested lists of reals, one list level per axis: a matrix is
  \<open>[batch, classes]\<close>, a rank-3 tensor \<open>[batch, classes, branches]\<close>, a feature map
  \<open>[batch, channels, height, width]\<close>. Floating-point numbers are idealised as reals.
  Library layers (convolutions, dense blocks, batch norms, linear layers) are opaque
  functions that may raise; raised exceptions are values of type \<open>error\<close>.
\<close>

type_synonym matrix = "real list list"
type_synonym tensor3 = "real list list list"
type_synonym tensor4 = "real list list list list"

datatype error =
    AttributeError string
  | UnboundLocalError string
  | NotImplementedError string
  | RuntimeError
  | IndexError
  | ZeroDivisionError
  | ValueError
  | AssertionError

text \<open>Sequencing of computations that may raise: the first exception propagates.\<close>

definition bnd :: "error + 'a \<Rightarrow> ('a \<Rightarrow> error + 'b) \<Rightarrow> error + 'b" where
  "bnd m f = (case m of Inl e \<Rightarrow> Inl e | Inr v \<Rightarrow> f v)"

text \<open>
  An attribute that holds a callable: a layer on feature maps (\<open>Conv\<close>), a layer on
  matrices (\<open>Dense\<close>), or the autograd function \<open>ILR.apply\<close>, which takes the feature map and
  the branch count (\<open>Tap\<close>).
\<close>

datatype module =
    Conv "tensor4 \<Rightarrow> error + tensor4"
  | Dense "matrix \<Rightarrow> error + matrix"
  | Tap "tensor4 \<Rightarrow> int \<Rightarrow> error + tensor4"

text \<open>
  A model object: the plain attributes \<open>num_branches\<close>, \<open>avg\<close>, \<open>ind\<close>, \<open>bpscale\<close>, and the
  attributes set with \<open>setattr\<close> or by assignment of a layer, keyed by attribute name.
\<close>

record model =
  num_branches :: int
  avg :: bool
  ind :: bool
  bpscale :: bool
  attrs :: "string \<rightharpoonup> module"

definition setattr :: "model \<Rightarrow> string \<Rightarrow> module \<Rightarrow> model" where
  "setattr self name v = self\<lparr>attrs := (attrs self)(name \<mapsto> v)\<rparr>"

definition getattr :: "model \<Rightarrow> string \<Rightarrow> error + module" where
  "getattr self name =
     (case attrs self name of None \<Rightarrow> Inl (AttributeError name) | Some m \<Rightarrow> Inr m)"

text \<open>Calling a layer on a feature map or on a matrix; an argument of the wrong rank
  is a shape error of the library.\<close>

definition call4 :: "module \<Rightarrow> tensor4 \<Rightarrow> error + tensor4" where
  "call4 m x = (case m of Conv f \<Rightarrow> f x | Dense f \<Rightarrow> Inl RuntimeError | Tap f \<Rightarrow> Inl RuntimeError)"

definition call2 :: "module \<Rightarrow> matrix \<Rightarrow> error + matrix" where
  "call2 m x = (case m of Dense f \<Rightarrow> f x | Conv f \<Rightarrow> Inl RuntimeError | Tap f \<Rightarrow> Inl RuntimeError)"

definition call_tap :: "module \<Rightarrow> tensor4 \<Rightarrow> int \<Rightarrow> error + tensor4" where
  "call_tap m x k = (case m of Tap f \<Rightarrow> f x k | Conv f \<Rightarrow> Inl RuntimeError | Dense f \<Rightarrow> Inl RuntimeError)"

subsection \<open>Python's \<open>str\<close> on a non-negative integer\<close>

definition digit_char :: "nat \<Rightarrow> char" where
  "digit_char d = ''0123456789'' ! d"

fun str :: "nat \<Rightarrow> string" where
  "str n = (if n < 10 then [digit_char n] else str (n div 10) @ [digit_char (n mod 10)])"

declare str.simps [simp del]

subsection \<open>Tensor operations of the library\<close>

definition has_shape2 :: "nat \<Rightarrow> nat \<Rightarrow> matrix \<Rightarrow> bool" where
  "has_shape2 B C m \<longleftrightarrow> length m = B \<and> (\<forall>r \<in> set m. length r = C)"

definition has_shape3 :: "nat \<Rightarrow> nat \<Rightarrow> nat \<Rightarrow> tensor3 \<Rightarrow> bool" where
  "has_shape3 B C K t \<longleftrightarrow>
     length t = B \<and> (\<forall>r \<in> set t. length r = C \<and> (\<forall>c \<in> set r. length c = K))"

text \<open>\<open>t.unsqueeze(-1)\<close> on a matrix: every entry becomes a list of one element.\<close>

definition unsqueeze :: "matrix \<Rightarrow> tensor3" where
  "unsqueeze m = map (map (\<lambda>v. [v])) m"

text \<open>\<open>torch.cat([p, t], -1)\<close> on rank-3 tensors: the sizes of the first two axes must
  agree.\<close>

definition cat3 :: "tensor3 \<Rightarrow> tensor3 \<Rightarrow> error + tensor3" where
  "cat3 p t =
     (if map length p = map length t then Inr (map2 (map2 (@)) p t) else Inl RuntimeError)"

text \<open>\<open>p[:, :, i]\<close>: IndexError when \<open>i\<close> is not below the size of the last axis.\<close>

definition slice3 :: "tensor3 \<Rightarrow> nat \<Rightarrow> error + matrix" where
  "slice3 p i =
     (if \<forall>r \<in> set p. \<forall>c \<in> set r. i < length c then Inr (map (map (\<lambda>c. c ! i)) p)
      else Inl IndexError)"

text \<open>\<open>m[:, i]\<close> on a matrix.\<close>

definition col :: "matrix \<Rightarrow> nat \<Rightarrow> error + real list" where
  "col m i = (if \<forall>r \<in> set m. i < length r then Inr (map (\<lambda>r. r ! i) m) else Inl IndexError)"

text \<open>\<open>m.size(1)\<close>.\<close>

definition size1 :: "matrix \<Rightarrow> nat" where
  "size1 m = (case m of [] \<Rightarrow> 0 | r # _ \<Rightarrow> length r)"

text \<open>\<open>v.view(-1, 1).repeat(1, n)\<close>: a column vector repeated \<open>n\<close> times along axis 1.\<close>

definition view_repeat :: "real list \<Rightarrow> nat \<Rightarrow> matrix" where
  "view_repeat v n = map (\<lambda>w. replicate n w) v"

text \<open>Elementwise product and sum of two matrices of the same shape, and the product
  of a Python float with a matrix. Operands of different shapes are a RuntimeError
  (broadcasting of size-1 axes is outside the model; the operands in this program are
  slices of one tensor and have one shape).\<close>

definition same_shape :: "matrix \<Rightarrow> matrix \<Rightarrow> bool" where
  "same_shape a b \<longleftrightarrow> map length a = map length b"

definition mul2 :: "matrix \<Rightarrow> matrix \<Rightarrow> error + matrix" where
  "mul2 a b = (if same_shape a b then Inr (map2 (map2 (*)) a b) else Inl RuntimeError)"

definition add2 :: "matrix \<Rightarrow> matrix \<Rightarrow> error + matrix" where
  "add2 a b = (if same_shape a b then Inr (map2 (map2 (+)) a b) else Inl RuntimeError)"

definition scale :: "real \<Rightarrow> matrix \<Rightarrow> matrix" where
  "scale c m = map (map (\<lambda>v. c * v)) m"

text \<open>\<open>F.adaptive_avg_pool2d(x, (1, 1))\<close>: every channel plane is replaced by its mean;
  a plane or an image with no element is refused by the library.\<close>

definition plane_mean :: "real list list \<Rightarrow> real" where
  "plane_mean p = sum_list (concat p) / real (length (concat p))"

definition adaptive_avg_pool2d :: "tensor4 \<Rightarrow> error + tensor4" where
  "adaptive_avg_pool2d x =
     (if \<exists>img \<in> set x. img = [] \<or> (\<exists>p \<in> set img. concat p = []) then Inl RuntimeError
      else Inr (map (map (\<lambda>p. [[plane_mean p]])) x))"

text \<open>\<open>t.view(n, -1)\<close> on a feature map: the entries in row-major order, cut into \<open>n\<close>
  rows of equal width; refused when \<open>n = 0\<close> or \<open>n\<close> does not divide the number of
  entries.\<close>

definition flat4 :: "tensor4 \<Rightarrow> real list" where
  "flat4 t = concat (map (\<lambda>img. concat (map concat img)) t)"

primrec rows :: "nat \<Rightarrow> nat \<Rightarrow> real list \<Rightarrow> matrix" where
  "rows 0 w xs = []"
| "rows (Suc n) w xs = take w xs # rows n w (drop w xs)"

definition view_rows :: "tensor4 \<Rightarrow> nat \<Rightarrow> error + matrix" where
  "view_rows t n =
     (if n = 0 \<or> length (flat4 t) mod n \<noteq> 0 then Inl RuntimeError
      else Inr (rows n (length (flat4 t) div n) (flat4 t)))"

text \<open>\<open>F.relu\<close> and \<open>F.softmax(dim=1)\<close> on a matrix.\<close>

definition relu :: "matrix \<Rightarrow> matrix" where
  "relu m = map (map (max 0)) m"

definition softmax_row :: "real list \<Rightarrow> real list" where
  "softmax_row r = map (\<lambda>v. exp v / sum_list (map exp r)) r"

definition softmax :: "matrix \<Rightarrow> matrix" where
  "softmax m = map softmax_row m"


section \<open>The program\<close>

subsection \<open>The gradient-scaling tap \<open>ILR\<close> (densenet_one.py, lines 91-101)\<close>

text \<open>
  \<open>ctx\<close> is the autograd context object; \<open>forward\<close> stores the branch count on it and
  returns its input, \<open>backward\<close> reads the count back and divides the incoming gradient by
  it; the second component of its result is the gradient for the argument \<open>num_branches\<close>,
  always \<open>None\<close>. A tensor divided by the integer 0 is no exception in the library (it
  gives infinities); the reals have no such values, so statements about \<open>ILR_backward\<close>
  are made for a count other than 0.
\<close>

record ctx =
  ctx_num_branches :: "int option"

definition div4 :: "tensor4 \<Rightarrow> int \<Rightarrow> tensor4" where
  "div4 g k = map (map (map (map (\<lambda>v. v / real_of_int k)))) g"

definition ILR_forward :: "ctx \<Rightarrow> tensor4 \<Rightarrow> int \<Rightarrow> ctx \<times> tensor4" where
  "ILR_forward c input k = (c\<lparr>ctx_num_branches := Some k\<rparr>, input)"

definition ILR_backward :: "ctx \<Rightarrow> tensor4 \<Rightarrow> error + tensor4 \<times> unit option" where
  "ILR_backward c grad_output =
     (case ctx_num_branches c of
        None \<Rightarrow> Inl (AttributeError ''num_branches'')
      | Some k \<Rightarrow> Inr (div4 grad_output k, None))"

text \<open>\<open>ILR.apply(x, k)\<close>: the library makes a fresh context and runs \<open>forward\<close>.\<close>

definition ILR_apply :: "tensor4 \<Rightarrow> int \<Rightarrow> error + tensor4" where
  "ILR_apply x k = Inr (snd (ILR_forward \<lparr>ctx_num_branches = None\<rparr> x k))"

subsection \<open>Stacking the heads' logits\<close>

text \<open>
  The loop \<open>for i in range(1, self.num_branches)\<close> of both forward functions
  (densenet_one.py lines 230-238, mobilenetv2_one.py lines 234-241): the head of branch
  \<open>i\<close> is run, its logits get a last axis of size 1 and are appended to \<open>pro\<close> along the
  last axis. The two files differ in the head only, which is the argument \<open>h\<close>.
\<close>

fun cat_loop :: "(nat \<Rightarrow> error + matrix) \<Rightarrow> nat list \<Rightarrow> tensor3 \<Rightarrow> error + tensor3" where
  "cat_loop h [] pro = Inr pro"
| "cat_loop h (i # is) pro =
     bnd (h i) (\<lambda>temp_1. bnd (cat3 pro (unsqueeze temp_1)) (\<lambda>pro'. cat_loop h is pro'))"

subsection \<open>Gate and gated fusion (densenet_one.py lines 259-271, mobilenetv2_one.py lines 250-261)\<close>

definition gate :: "model \<Rightarrow> tensor4 \<Rightarrow> error + matrix" where
  "gate self x =
     bnd (adaptive_avg_pool2d x) (\<lambda>p.
     bnd (view_rows p (length p)) (\<lambda>v.
     bnd (getattr self ''control_v1'') (\<lambda>l.
     bnd (call2 l v) (\<lambda>a.
     bnd (getattr self ''bn_v1'') (\<lambda>b.
     bnd (call2 b a) (\<lambda>n.
     Inr (softmax (relu n))))))))"

text \<open>\<open>x_c[:, i].view(-1, 1).repeat(1, pro[:, :, i].size(1)) * pro[:, :, i]\<close>\<close>

definition weighted :: "matrix \<Rightarrow> tensor3 \<Rightarrow> nat \<Rightarrow> error + matrix" where
  "weighted x_c pro i =
     bnd (col x_c i) (\<lambda>w.
     bnd (slice3 pro i) (\<lambda>s.
     mul2 (view_repeat w (size1 s)) s))"

fun gated_loop :: "matrix \<Rightarrow> tensor3 \<Rightarrow> nat list \<Rightarrow> matrix \<Rightarrow> error + matrix" where
  "gated_loop x_c pro [] x_m = Inr x_m"
| "gated_loop x_c pro (i # is) x_m =
     bnd (weighted x_c pro i) (\<lambda>t. bnd (add2 x_m t) (\<lambda>x_m'. gated_loop x_c pro is x_m'))"

definition gated_fusion :: "matrix \<Rightarrow> tensor3 \<Rightarrow> int \<Rightarrow> error + matrix" where
  "gated_fusion x_c pro k =
     bnd (weighted x_c pro 0) (\<lambda>x_m. gated_loop x_c pro [1..<nat k] x_m)"

subsection \<open>Leave-one-out averages (densenet_one.py lines 244-256)\<close>

text \<open>
  The accumulators \<open>x_m\<close> and \<open>temp\<close> start as the Python integer \<open>0\<close> and become a
  tensor with the first \<open>+=\<close>; \<open>unsqueeze\<close> exists on tensors only.
\<close>

datatype acc = Zero | Acc matrix

definition iadd :: "acc \<Rightarrow> matrix \<Rightarrow> error + acc" where
  "iadd a t = (case a of Zero \<Rightarrow> Inr (Acc t) | Acc m \<Rightarrow> bnd (add2 m t) (\<lambda>s. Inr (Acc s)))"

definition acc_unsqueeze :: "acc \<Rightarrow> error + tensor3" where
  "acc_unsqueeze a =
     (case a of Zero \<Rightarrow> Inl (AttributeError ''unsqueeze'') | Acc m \<Rightarrow> Inr (unsqueeze m))"

text \<open>\<open>1/(self.num_branches-1)\<close>\<close>

definition coef :: "int \<Rightarrow> error + real" where
  "coef k = (if k - 1 = 0 then Inl ZeroDivisionError else Inr (1 / real_of_int (k - 1)))"

text \<open>Lines 245-246: \<open>for i in range(1, K): x_m += 1/(K-1) * pro[:, :, i]\<close>\<close>

fun first_loop :: "int \<Rightarrow> tensor3 \<Rightarrow> nat list \<Rightarrow> acc \<Rightarrow> error + acc" where
  "first_loop k pro [] x_m = Inr x_m"
| "first_loop k pro (i # is) x_m =
     bnd (coef k) (\<lambda>c.
     bnd (slice3 pro i) (\<lambda>s.
     bnd (iadd x_m (scale c s)) (\<lambda>x_m'. first_loop k pro is x_m')))"

text \<open>Lines 250-253: \<open>for j in range(0, K): if j != i: temp += 1/(K-1) * pro[:, :, j]\<close>\<close>

fun inner_loop :: "int \<Rightarrow> tensor3 \<Rightarrow> nat \<Rightarrow> nat list \<Rightarrow> acc \<Rightarrow> error + acc" where
  "inner_loop k pro i [] temp = Inr temp"
| "inner_loop k pro i (j # js) temp =
     (if j \<noteq> i then
        bnd (coef k) (\<lambda>c.
        bnd (slice3 pro j) (\<lambda>s.
        bnd (iadd temp (scale c s)) (\<lambda>temp'. inner_loop k pro i js temp')))
      else inner_loop k pro i js temp)"

text \<open>Lines 248-256: the loop over \<open>i\<close> that appends each average to \<open>x_m\<close>.\<close>

fun outer_loop :: "int \<Rightarrow> tensor3 \<Rightarrow> nat list \<Rightarrow> tensor3 \<Rightarrow> error + tensor3" where
  "outer_loop k pro [] x_m = Inr x_m"
| "outer_loop k pro (i # is) x_m =
     bnd (inner_loop k pro i [0..<nat k] Zero) (\<lambda>temp.
     bnd (acc_unsqueeze temp) (\<lambda>t.
     bnd (cat3 x_m t) (\<lambda>x_m'. outer_loop k pro is x_m')))"

definition avg_fusion :: "tensor3 \<Rightarrow> int \<Rightarrow> error + tensor3" where
  "avg_fusion pro k =
     bnd (first_loop k pro [1..<nat k] Zero) (\<lambda>x_m.
     bnd (acc_unsqueeze x_m) (\<lambda>x_m'.
     outer_loop k pro [1..<nat k] x_m'))"

subsection \<open>\<open>DenseNet.forward\<close> (densenet_one.py lines 217-272)\<close>

text \<open>The second component of the result: \<open>None\<close>, a matrix (gated fusion) or a rank-3
  tensor (leave-one-out averages).\<close>

datatype fused = T2 matrix | T3 tensor3

text \<open>Lines 223-228 for \<open>i = 0\<close> and lines 231-236 for the branches of the loop.\<close>

definition head :: "model \<Rightarrow> tensor4 \<Rightarrow> nat \<Rightarrow> error + matrix" where
  "head self x i =
     bnd (getattr self (''layer3_'' @ str i)) (\<lambda>l.
     bnd (call4 l x) (\<lambda>t1.
     bnd (getattr self (''norm_final_'' @ str i)) (\<lambda>n.
     bnd (call4 n t1) (\<lambda>t2.
     bnd (getattr self (''relu_final_'' @ str i)) (\<lambda>r.
     bnd (call4 r t2) (\<lambda>t3.
     bnd (getattr self ''avgpool'') (\<lambda>p.
     bnd (call4 p t3) (\<lambda>t4.
     bnd (view_rows t4 (length t3)) (\<lambda>t5.
     bnd (getattr self (''classifier3_'' @ str i)) (\<lambda>c.
     call2 c t5))))))))))"

text \<open>Lines 219-221: the trunk and the optional tap.\<close>

definition trunk :: "model \<Rightarrow> tensor4 \<Rightarrow> error + tensor4" where
  "trunk self x0 =
     bnd (getattr self ''features'') (\<lambda>f.
     bnd (call4 f x0) (\<lambda>x.
     if bpscale self
     then bnd (getattr self ''layer_ILR'') (\<lambda>g. call_tap g x (num_branches self))
     else Inr x))"

text \<open>Lines 223-238: \<open>pro\<close>.\<close>

definition branch_logits :: "model \<Rightarrow> tensor4 \<Rightarrow> error + tensor3" where
  "branch_logits self x =
     bnd (head self x 0) (\<lambda>x_3_1.
     cat_loop (head self x) [1..<nat (num_branches self)] (unsqueeze x_3_1))"

definition forward :: "model \<Rightarrow> tensor4 \<Rightarrow> error + tensor3 \<times> fused option" where
  "forward self x0 =
     bnd (trunk self x0) (\<lambda>x.
     bnd (branch_logits self x) (\<lambda>pro.
     if ind self then Inr (pro, None)
     else if avg self then
       bnd (avg_fusion pro (num_branches self)) (\<lambda>x_m. Inr (pro, Some (T3 x_m)))
     else
       bnd (gate self x) (\<lambda>x_c.
       bnd (gated_fusion x_c pro (num_branches self)) (\<lambda>x_m. Inr (pro, Some (T2 x_m))))))"

subsection \<open>\<open>MobileNetV2._forward_impl\<close> (mobilenetv2_one.py lines 216-262)\<close>

text \<open>Lines 229-232: branch 0 pools with \<open>F.adaptive_avg_pool2d\<close>.\<close>

definition head0_mb :: "model \<Rightarrow> tensor4 \<Rightarrow> error + matrix" where
  "head0_mb self x =
     bnd (getattr self ''layer4_0'') (\<lambda>l.
     bnd (call4 l x) (\<lambda>t1.
     bnd (adaptive_avg_pool2d t1) (\<lambda>t2.
     bnd (view_rows t2 (length t2)) (\<lambda>t3.
     bnd (getattr self ''classifier4_0'') (\<lambda>c.
     call2 c t3)))))"

text \<open>Lines 235-238: the branches of the loop pool with \<open>self.avgpool\<close>.\<close>

definition head_mb :: "model \<Rightarrow> tensor4 \<Rightarrow> nat \<Rightarrow> error + matrix" where
  "head_mb self x i =
     bnd (getattr self (''layer4_'' @ str i)) (\<lambda>l.
     bnd (call4 l x) (\<lambda>t1.
     bnd (getattr self ''avgpool'') (\<lambda>p.
     bnd (call4 p t1) (\<lambda>t2.
     bnd (view_rows t2 (length t2)) (\<lambda>t3.
     bnd (getattr self (''classifier4_'' @ str i)) (\<lambda>c.
     call2 c t3))))))"

definition branch_logits_mb :: "model \<Rightarrow> tensor4 \<Rightarrow> error + tensor3" where
  "branch_logits_mb self x =
     bnd (head0_mb self x) (\<lambda>x_3_1.
     cat_loop (head_mb self x) [1..<nat (num_branches self)] (unsqueeze x_3_1))"

text \<open>Line 227: \<open>x = self.features(x)\<close>; this file never applies the tap.\<close>

definition trunk_mb :: "model \<Rightarrow> tensor4 \<Rightarrow> error + tensor4" where
  "trunk_mb self x0 = bnd (getattr self ''features'') (\<lambda>f. call4 f x0)"

text \<open>In the branch \<open>if self.avg: pass\<close> nothing is assigned to \<open>x_m\<close>, and
  \<open>return pro, x_m\<close> reads it.\<close>

definition forward_impl :: "model \<Rightarrow> tensor4 \<Rightarrow> error + tensor3 \<times> fused option" where
  "forward_impl self x0 =
     bnd (trunk_mb self x0) (\<lambda>x.
     bnd (branch_logits_mb self x) (\<lambda>pro.
     if ind self then Inr (pro, None)
     else if avg self then Inl (UnboundLocalError ''x_m'')
     else
       bnd (gate self x) (\<lambda>x_c.
       bnd (gated_fusion x_c pro (num_branches self)) (\<lambda>x_m. Inr (pro, Some (T2 x_m))))))"


section \<open>Construction\<close>

text \<open>
  The constructors of library layers are a parameter \<open>mk\<close>: \<open>mk name hyper\<close> is the layer
  object that the library builds for the attribute \<open>name\<close> from the integer
  hyper-parameters \<open>hyper\<close>, with its initial weights (so the weight initialisation loops
  at the end of both constructors are part of \<open>mk\<close>). The trunk \<open>self.features\<close> is one such
  layer. Library constructors are taken to succeed.
\<close>

type_synonym factory = "string \<Rightarrow> int list \<Rightarrow> module"

text \<open>Python's \<open>int\<close> on a float truncates towards zero.\<close>

definition py_int :: "real \<Rightarrow> int" where
  "py_int r = (if 0 \<le> r then \<lfloor>r\<rfloor> else \<lceil>r\<rceil>)"

subsection \<open>\<open>DenseNet.__init__\<close> (densenet_one.py lines 119-215)\<close>

record dn_args =
  dn_growth_rate :: int
  dn_block_config :: "int list"
  dn_num_branches :: int
  dn_bpscale :: bool
  dn_avg :: bool
  dn_compression :: real
  dn_num_init_features :: int
  dn_bn_size :: int
  dn_drop_rate :: real
  dn_num_classes :: int
  dn_small_inputs :: bool
  dn_efficient :: bool
  dn_ind :: bool

text \<open>
  Lines 150-185, the loop over \<open>block_config\<close>: every entry but the last adds a dense
  block and a transition to the trunk and updates \<open>num_features\<close>; the last entry
  creates one dense block per branch, \<open>layer3_0\<close>, \<open>layer3_1\<close>, ...
\<close>

fun dense_blocks :: "factory \<Rightarrow> dn_args \<Rightarrow> int list \<Rightarrow> model \<Rightarrow> int \<Rightarrow> model \<times> int" where
  "dense_blocks mk a [] self num_features = (self, num_features)"
| "dense_blocks mk a [num_layers] self num_features =
     (fold (\<lambda>i s. setattr s (''layer3_'' @ str i)
                (mk (''layer3_'' @ str i) [num_layers, num_features, dn_bn_size a, dn_growth_rate a]))
           [0..<nat (num_branches self)] self,
      num_features)"
| "dense_blocks mk a (num_layers # rest) self num_features =
     dense_blocks mk a rest self
       (py_int (real_of_int (num_features + num_layers * dn_growth_rate a) * dn_compression a))"

definition DenseNet_init :: "factory \<Rightarrow> dn_args \<Rightarrow> error + model" where
  "DenseNet_init mk a =
     (if \<not> (0 < dn_compression a \<and> dn_compression a \<le> 1) then Inl AssertionError
      else
        let self0 = \<lparr>num_branches = dn_num_branches a, avg = dn_avg a, ind = dn_ind a,
                     bpscale = dn_bpscale a, attrs = Map.empty\<rparr>;
            self1 = setattr self0 ''features''
                      (mk ''features'' (dn_num_init_features a # dn_block_config a));
            (self2, num_features) =
               dense_blocks mk a (dn_block_config a) self1 (dn_num_init_features a);
            self3 = (if avg self2 = False
                     then setattr
                            (setattr self2 ''control_v1''
                               (mk ''control_v1'' [num_features, num_branches self2]))
                            ''bn_v1'' (mk ''bn_v1'' [dn_num_branches a])
                     else self2)
        in case dn_block_config a of
             [] \<Rightarrow> Inl (UnboundLocalError ''num_layers'')
           | _ # _ \<Rightarrow>
               let num_layers = last (dn_block_config a);
                   num_features' = num_features + num_layers * dn_growth_rate a;
                   self4 = fold (\<lambda>i s. setattr
                                   (setattr s (''norm_final_'' @ str i)
                                      (mk (''norm_final_'' @ str i) [num_features']))
                                   (''relu_final_'' @ str i) (mk (''relu_final_'' @ str i) []))
                             [0..<nat (num_branches self3)] self3;
                   self5 = fold (\<lambda>i s. setattr s (''classifier3_'' @ str i)
                                   (mk (''classifier3_'' @ str i) [num_features', dn_num_classes a]))
                             [0..<nat (num_branches self4)] self4;
                   self6 = setattr self5 ''avgpool'' (Conv adaptive_avg_pool2d);
                   self7 = (if bpscale self6 then setattr self6 ''layer_ILR'' (Tap ILR_apply)
                            else self6)
               in Inr self7)"

subsection \<open>\<open>MobileNetV2.__init__\<close> (mobilenetv2_one.py lines 101-214)\<close>

text \<open>The arguments \<open>block\<close> and \<open>norm_layer\<close> are left at their default \<open>None\<close>.\<close>

record mb_args =
  mb_num_classes :: int
  mb_width_mult :: real
  mb_inverted_residual_setting :: "int list list option"
  mb_round_nearest :: int
  mb_num_branches :: int
  mb_bpscale :: bool
  mb_avg :: bool
  mb_ind :: bool

text \<open>\<open>_make_divisible\<close> (lines 11-24).\<close>

definition make_divisible :: "real \<Rightarrow> int \<Rightarrow> int option \<Rightarrow> error + int" where
  "make_divisible v divisor min_value =
     (let min_value' = (case min_value of None \<Rightarrow> divisor | Some m \<Rightarrow> m) in
      if divisor = 0 then Inl ZeroDivisionError
      else
        let new_v = max min_value' (py_int (v + real_of_int divisor / 2) div divisor * divisor)
        in Inr (if real_of_int new_v < 9 / 10 * v then new_v + divisor else new_v))"

definition default_setting :: "int list list" where
  "default_setting =
     [[1, 16, 1, 1], [6, 24, 2, 1], [6, 32, 3, 1], [6, 64, 4, 2],
      [6, 96, 3, 1], [6, 160, 3, 2], [6, 320, 1, 1]]"

text \<open>Lines 169-173: the blocks of one stage; \<open>InvertedResidual.__init__\<close> asserts
  \<open>stride in [1, 2]\<close> (line 68).\<close>

fun stage :: "int \<Rightarrow> nat list \<Rightarrow> error + unit" where
  "stage s [] = Inr ()"
| "stage s (i # is) =
     (let stride = (if i = 0 then s else 1)
      in if stride = 1 \<or> stride = 2 then stage s is else Inl AssertionError)"

text \<open>Lines 164-173: the loop over the setting, with the variables \<open>input_channel\<close> and
  \<open>output_channel\<close> (unbound before the first round).\<close>

fun stages :: "real \<Rightarrow> int \<Rightarrow> int list list \<Rightarrow> int \<times> int option \<Rightarrow> error + int \<times> int option" where
  "stages w rn [] io = Inr io"
| "stages w rn (row # rest) (input_channel, oc) =
     (case row of
        [t, c, n, s] \<Rightarrow>
          bnd (make_divisible (real_of_int c * w) rn None) (\<lambda>output_channel.
          bnd (stage s [0..<nat n]) (\<lambda>_.
          stages w rn rest
            (if 0 < n then output_channel else input_channel, Some output_channel)))
      | _ \<Rightarrow> Inl ValueError)"

definition MobileNetV2_init :: "factory \<Rightarrow> mb_args \<Rightarrow> error + model" where
  "MobileNetV2_init mk a =
     (let self0 = \<lparr>num_branches = mb_num_branches a, avg = mb_avg a, ind = mb_ind a,
                   bpscale = mb_bpscale a, attrs = Map.empty\<rparr>;
          setting = (case mb_inverted_residual_setting a of
                       None \<Rightarrow> default_setting | Some st \<Rightarrow> st)
      in if length setting = 0 \<or> length (hd setting) \<noteq> 4 then Inl ValueError
         else
           bnd (make_divisible (32 * mb_width_mult a) (mb_round_nearest a) None) (\<lambda>input_channel.
           bnd (make_divisible (1280 * max 1 (mb_width_mult a)) (mb_round_nearest a) None) (\<lambda>last_channel.
           bnd (stages (mb_width_mult a) (mb_round_nearest a) setting (input_channel, None))
             (\<lambda>(input_channel', oc).
           let self1 = setattr self0 ''features'' (mk ''features'' (concat setting));
               self2 = fold (\<lambda>i s. setattr
                               (setattr s (''layer4_'' @ str i)
                                  (mk (''layer4_'' @ str i) [input_channel', last_channel]))
                               (''classifier4_'' @ str i)
                               (mk (''classifier4_'' @ str i) [last_channel, mb_num_classes a]))
                         [0..<nat (mb_num_branches a)] self1
           in if avg self2 = False then
                (case oc of
                   None \<Rightarrow> Inl (UnboundLocalError ''output_channel'')
                 | Some output_channel \<Rightarrow>
                     Inr (setattr
                            (setattr self2 ''control_v1''
                               (mk ''control_v1'' [output_channel, num_branches self2]))
                            ''bn_v1'' (mk ''bn_v1'' [num_branches self2])))
              else Inr self2))))"

subsection \<open>\<open>MutualNet.__init__\<close> (DML.py lines 13-36)\<close>

text \<open>
  The constructors of the student networks come from modules that are not among the
  sources (\<open>.resnet\<close>, \<open>.densenet\<close>, \<open>.vgg\<close>, \<open>.mobilenetv2\<close>, \<open>.shuffle\<close>); they are a
  parameter. Each takes the class count (and \<open>vgg16\<close> the dropout rate) and, for the
  fresh weights of every call, the index of the student; each may raise.
\<close>

record 's zoo =
  resnet18 :: "int \<Rightarrow> nat \<Rightarrow> error + 's"
  mobilenet_v2 :: "int \<Rightarrow> nat \<Rightarrow> error + 's"
  vgg16 :: "int \<Rightarrow> real \<Rightarrow> nat \<Rightarrow> error + 's"
  densenetd40k12 :: "int \<Rightarrow> nat \<Rightarrow> error + 's"
  densenet121 :: "int \<Rightarrow> nat \<Rightarrow> error + 's"
  shufflenet_v2_x0_5 :: "int \<Rightarrow> nat \<Rightarrow> error + 's"

record 's mutualnet =
  mn_num_branches :: int
  students :: "string \<rightharpoonup> 's"

fun MutualNet_loop ::
  "'s zoo \<Rightarrow> string \<Rightarrow> int \<Rightarrow> real \<Rightarrow> nat list \<Rightarrow> 's mutualnet \<Rightarrow> error + 's mutualnet" where
  "MutualNet_loop z model num_classes dropout [] self = Inr self"
| "MutualNet_loop z model num_classes dropout (i # is) self =
     bnd (if model = ''resnet18'' then resnet18 z num_classes i
          else if model = ''mobilenet_v2'' then mobilenet_v2 z num_classes i
          else if model = ''vgg16'' then vgg16 z num_classes dropout i
          else if model = ''densenetd40k12'' then densenetd40k12 z num_classes i
          else if model = ''densenet121'' then densenet121 z num_classes i
          else if model = ''shufflenet_v2_x0_5'' then shufflenet_v2_x0_5 z num_classes i
          else Inl (NotImplementedError model))
       (\<lambda>s. MutualNet_loop z model num_classes dropout is
               (self\<lparr>students := (students self)(''stu'' @ str i \<mapsto> s)\<rparr>))"

definition MutualNet_init ::
  "'s zoo \<Rightarrow> string \<Rightarrow> int \<Rightarrow> int \<Rightarrow> real \<Rightarrow> error + 's mutualnet" where
  "MutualNet_init z model n_branches num_classes dropout =
     MutualNet_loop z model num_classes dropout [0..<nat n_branches]
       \<lparr>mn_num_branches = n_branches, students = Map.empty\<rparr>"


section \<open>Notions used in the statements\<close>

text \<open>Tensors given by their entries: \<open>tab2 B C f\<close> is the \<open>B \<times> C\<close> matrix with entry
  \<open>f b c\<close> at \<open>[b, c]\<close>, \<open>tab3\<close> the same for rank 3.\<close>

definition tab2 :: "nat \<Rightarrow> nat \<Rightarrow> (nat \<Rightarrow> nat \<Rightarrow> real) \<Rightarrow> matrix" where
  "tab2 B C f = map (\<lambda>b. map (\<lambda>c. f b c) [0..<C]) [0..<B]"

definition tab3 :: "nat \<Rightarrow> nat \<Rightarrow> nat \<Rightarrow> (nat \<Rightarrow> nat \<Rightarrow> nat \<Rightarrow> real) \<Rightarrow> tensor3" where
  "tab3 B C K f = map (\<lambda>b. map (\<lambda>c. map (\<lambda>i. f b c i) [0..<K]) [0..<C]) [0..<B]"

text \<open>The family names that \<open>MutualNet.__init__\<close> compares \<open>model\<close> with.\<close>

definition families :: "string list" where
  "families = [''resnet18'', ''mobilenet_v2'', ''vgg16'', ''densenetd40k12'', ''densenet121'',
               ''shufflenet_v2_x0_5'']"

subsection \<open>A small concrete instance\<close>

text \<open>
  Concrete library layers for evaluating the program: every layer on feature maps is
  the identity; the classifier of branch \<open>i\<close> maps a row \<open>r\<close> to the logits
  \<open>(i + 1) * (sum r + c)\<close> for the classes \<open>c\<close> below its second hyper-parameter (the
  branch index is the last character of the attribute name); \<open>control_v1\<close> maps a row to
  \<open>sum r + i\<close> for the branches \<open>i\<close>; \<open>bn_v1\<close> is the identity.
\<close>

definition toy_mk :: factory where
  "toy_mk name hyper =
     (if take 10 name = ''classifier'' then
        Dense (\<lambda>m. Inr (map (\<lambda>r. map (\<lambda>c. real (of_char (last name) - (47::nat)) * (sum_list r + real c))
                                   [0..<nat (hyper ! 1)]) m))
      else if name = ''control_v1'' then
        Dense (\<lambda>m. Inr (map (\<lambda>r. map (\<lambda>i. sum_list r + real i) [0..<nat (hyper ! 1)]) m))
      else if name = ''bn_v1'' then Dense (\<lambda>m. Inr m)
      else Conv (\<lambda>x. Inr x))"

text \<open>The default arguments of \<open>DenseNet\<close>, with two classes; the branch count and the
  flags \<open>bpscale\<close>, \<open>avg\<close>, \<open>ind\<close> are given.\<close>

definition toy_dn :: "int \<Rightarrow> bool \<Rightarrow> bool \<Rightarrow> bool \<Rightarrow> dn_args" where
  "toy_dn k bp av i =
     \<lparr>dn_growth_rate = 12, dn_block_config = [16, 16, 16], dn_num_branches = k,
      dn_bpscale = bp, dn_avg = av, dn_compression = 1 / 2, dn_num_init_features = 24,
      dn_bn_size = 4, dn_drop_rate = 0, dn_num_classes = 2, dn_small_inputs = True,
      dn_efficient = False, dn_ind = i\<rparr>"

definition toy_densenet :: "int \<Rightarrow> bool \<Rightarrow> bool \<Rightarrow> bool \<Rightarrow> model" where
  "toy_densenet k bp av i = projr (DenseNet_init toy_mk (toy_dn k bp av i))"

text \<open>The default arguments of \<open>MobileNetV2\<close>, with two classes.\<close>

definition toy_mb :: "int \<Rightarrow> bool \<Rightarrow> bool \<Rightarrow> mb_args" where
  "toy_mb k av i =
     \<lparr>mb_num_classes = 2, mb_width_mult = 1, mb_inverted_residual_setting = None,
      mb_round_nearest = 8, mb_num_branches = k, mb_bpscale = False, mb_avg = av, mb_ind = i\<rparr>"

definition toy_mobilenet :: "int \<Rightarrow> bool \<Rightarrow> bool \<Rightarrow> model" where
  "toy_mobilenet k av i = projr (MobileNetV2_init toy_mk (toy_mb k av i))"

text \<open>An input batch of one image with two channels of height 1 and width 2.\<close>

definition toy_x :: tensor4 where
  "toy_x = [[[[1, 3]], [[2, 4]]]]"

text \<open>Student constructors that always succeed.\<close>

definition toy_zoo :: "unit zoo" where
  "toy_zoo =
     \<lparr>resnet18 = (\<lambda>_ _. Inr ()), mobilenet_v2 = (\<lambda>_ _. Inr ()), vgg16 = (\<lambda>_ _ _. Inr ()),
      densenetd40k12 = (\<lambda>_ _. Inr ()), densenet121 = (\<lambda>_ _. Inr ()),
      shufflenet_v2_x0_5 = (\<lambda>_ _. Inr ())\<rparr>"


section \<open>Properties\<close>

subsection \<open>Tensor operations on tabulated tensors\<close>

lemma bnd_Inr [simp]: "bnd (Inr v) f = f v"
  by (simp add: bnd_def)

lemma bnd_Inl [simp]: "bnd (Inl e) f = Inl e"
  by (simp add: bnd_def)

lemma tab2_nth [simp]: "b < B \<Longrightarrow> c < C \<Longrightarrow> tab2 B C f ! b ! c = f b c"
  by (simp add: tab2_def)

lemma tab3_nth [simp]: "b < B \<Longrightarrow> c < C \<Longrightarrow> i < K \<Longrightarrow> tab3 B C K f ! b ! c ! i = f b c i"
  by (simp add: tab3_def)

lemma has_shape2_tab2 [simp]: "has_shape2 B C (tab2 B C f)"
  by (auto simp: has_shape2_def tab2_def)

lemma has_shape3_tab3 [simp]: "has_shape3 B C K (tab3 B C K f)"
  by (auto simp: has_shape3_def tab3_def)

lemma tab2_cong: "(\<And>b c. b < B \<Longrightarrow> c < C \<Longrightarrow> f b c = g b c) \<Longrightarrow> tab2 B C f = tab2 B C g"
  by (simp add: tab2_def)

lemma tab3_cong:
  "(\<And>b c i. b < B \<Longrightarrow> c < C \<Longrightarrow> i < K \<Longrightarrow> f b c i = g b c i) \<Longrightarrow> tab3 B C K f = tab3 B C K g"
  by (simp add: tab3_def)

lemma map_nth_upt: "length xs = n \<Longrightarrow> map (\<lambda>i. f (xs ! i)) [0..<n] = map f xs"
  by (auto intro: nth_equalityI)

lemma has_shape2_eq_tab2: "has_shape2 B C m \<Longrightarrow> m = tab2 B C (\<lambda>b c. m ! b ! c)"
  unfolding has_shape2_def tab2_def
  by (auto intro!: nth_equalityI)

lemma has_shape3_eq_tab3: "has_shape3 B C K t \<Longrightarrow> t = tab3 B C K (\<lambda>b c i. t ! b ! c ! i)"
  unfolding has_shape3_def tab3_def
  by (auto intro!: nth_equalityI simp: all_set_conv_all_nth)

lemma map_length_tab2 [simp]: "map length (tab2 B C f) = replicate B C"
  by (auto simp: tab2_def intro!: nth_equalityI)

lemma map_length_tab3 [simp]: "map length (tab3 B C K f) = replicate B C"
  by (auto simp: tab3_def intro!: nth_equalityI)

lemma map2_upt: "map2 f (map g [0..<n]) (map h [0..<n]) = map (\<lambda>i. f (g i) (h i)) [0..<n]"
  by (auto intro!: nth_equalityI)

lemma add2_tab2 [simp]: "add2 (tab2 B C f) (tab2 B C g) = Inr (tab2 B C (\<lambda>b c. f b c + g b c))"
  by (simp add: add2_def same_shape_def) (simp add: tab2_def map2_upt)

lemma mul2_tab2 [simp]: "mul2 (tab2 B C f) (tab2 B C g) = Inr (tab2 B C (\<lambda>b c. f b c * g b c))"
  by (simp add: mul2_def same_shape_def) (simp add: tab2_def map2_upt)

lemma scale_tab2 [simp]: "scale k (tab2 B C f) = tab2 B C (\<lambda>b c. k * f b c)"
  by (simp add: scale_def tab2_def)

lemma unsqueeze_tab2 [simp]: "unsqueeze (tab2 B C f) = tab3 B C 1 (\<lambda>b c i. f b c)"
  by (simp add: unsqueeze_def tab2_def tab3_def)

lemma cat3_tab3 [simp]:
  "cat3 (tab3 B C K f) (tab3 B C K' g) =
     Inr (tab3 B C (K + K') (\<lambda>b c i. if i < K then f b c i else g b c (i - K)))"
  apply (simp add: cat3_def)
  apply (simp add: tab3_def map2_upt)
  apply (auto intro!: nth_equalityI simp: nth_append)
  done

lemma slice3_tab3 [simp]: "i < K \<Longrightarrow> slice3 (tab3 B C K f) i = Inr (tab2 B C (\<lambda>b c. f b c i))"
  by (auto simp: slice3_def tab3_def tab2_def)

lemma col_tab2 [simp]: "i < K \<Longrightarrow> col (tab2 B K w) i = Inr (map (\<lambda>b. w b i) [0..<B])"
  by (auto simp: col_def tab2_def)

lemma size1_nth: "size1 m = (if m = [] then 0 else length (m ! 0))"
  by (cases m) (simp_all add: size1_def)

lemma view_repeat_size1:
  "view_repeat (map w [0..<B]) (size1 (tab2 B C f)) = tab2 B C (\<lambda>b c. w b)"
proof (cases "B = 0")
  case True
  then show ?thesis by (simp add: view_repeat_def tab2_def)
next
  case False
  then have "size1 (tab2 B C f) = C"
    by (simp add: size1_nth) (simp add: tab2_def)
  then show ?thesis
    by (auto simp: view_repeat_def tab2_def intro!: nth_equalityI)
qed

lemma weighted_tab:
  "i < K \<Longrightarrow> weighted (tab2 B K w) (tab3 B C K p) i = Inr (tab2 B C (\<lambda>b c. w b i * p b c i))"
  by (simp add: weighted_def view_repeat_size1)


lemma cat_loop_tab:
  assumes "\<And>i. k \<le> i \<Longrightarrow> i < n \<Longrightarrow> h i = Inr (tab2 B C (L i))" and "k \<le> n"
  shows "cat_loop h [k..<n] (tab3 B C k (\<lambda>b c i. L i b c)) = Inr (tab3 B C n (\<lambda>b c i. L i b c))"
  using assms
proof (induction "n - k" arbitrary: k)
  case 0
  then show ?case by simp
next
  case (Suc d)
  then have kn: "k < n" by simp
  have step: "tab3 B C (Suc k) (\<lambda>b c i. if i < k then L i b c else L k b c)
                = tab3 B C (Suc k) (\<lambda>b c i. L i b c)"
    by (auto intro!: tab3_cong simp: less_Suc_eq)
  have "cat_loop h [Suc k..<n] (tab3 B C (Suc k) (\<lambda>b c i. L i b c))
          = Inr (tab3 B C n (\<lambda>b c i. L i b c))"
    using Suc.hyps(2) Suc.prems by (intro Suc.hyps(1)) auto
  then show ?case
    using kn Suc.prems(1)[of k] by (simp add: upt_conv_Cons step)
qed

lemma gated_loop_tab:
  "k \<le> K \<Longrightarrow>
   gated_loop (tab2 B K w) (tab3 B C K p) [k..<K] (tab2 B C (\<lambda>b c. \<Sum>i<k. w b i * p b c i))
     = Inr (tab2 B C (\<lambda>b c. \<Sum>i<K. w b i * p b c i))"
proof (induction "K - k" arbitrary: k)
  case 0
  then show ?case by simp
next
  case (Suc d)
  then have kK: "k < K" by simp
  have "gated_loop (tab2 B K w) (tab3 B C K p) [Suc k..<K]
          (tab2 B C (\<lambda>b c. \<Sum>i<Suc k. w b i * p b c i))
        = Inr (tab2 B C (\<lambda>b c. \<Sum>i<K. w b i * p b c i))"
    using Suc.hyps(2) kK by (intro Suc.hyps(1)) auto
  then show ?case
    using kK by (simp add: upt_conv_Cons weighted_tab)
qed

lemma gated_fusion_tab:
  assumes "1 \<le> K"
  shows "gated_fusion (tab2 B K w) (tab3 B C K p) (int K)
           = Inr (tab2 B C (\<lambda>b c. \<Sum>i<K. w b i * p b c i))"
proof -
  have "gated_loop (tab2 B K w) (tab3 B C K p) [1..<K] (tab2 B C (\<lambda>b c. \<Sum>i<1. w b i * p b c i))
          = Inr (tab2 B C (\<lambda>b c. \<Sum>i<K. w b i * p b c i))"
    using assms by (intro gated_loop_tab) simp
  then show ?thesis
    using assms by (simp add: gated_fusion_def weighted_tab)
qed

lemma iadd_Zero [simp]: "iadd Zero t = Inr (Acc t)"
  by (simp add: iadd_def)

lemma iadd_Acc_tab [simp]:
  "iadd (Acc (tab2 B C f)) (tab2 B C g) = Inr (Acc (tab2 B C (\<lambda>b c. f b c + g b c)))"
  by (simp add: iadd_def)

lemma first_loop_tab:
  assumes cf: "coef k' = Inr cf"
  shows "1 \<le> k \<Longrightarrow> k \<le> K \<Longrightarrow>
   first_loop k' (tab3 B C K p) [k..<K] (Acc (tab2 B C (\<lambda>b c. \<Sum>j = 1..<k. cf * p b c j)))
     = Inr (Acc (tab2 B C (\<lambda>b c. \<Sum>j = 1..<K. cf * p b c j)))"
proof (induction "K - k" arbitrary: k)
  case 0
  then show ?case by simp
next
  case (Suc d)
  then have kK: "k < K" by simp
  have "first_loop k' (tab3 B C K p) [Suc k..<K]
            (Acc (tab2 B C (\<lambda>b c. \<Sum>j = 1..<Suc k. cf * p b c j)))
        = Inr (Acc (tab2 B C (\<lambda>b c. \<Sum>j = 1..<K. cf * p b c j)))"
    using Suc.hyps(2) Suc.prems kK by (intro Suc.hyps(1)) auto
  then show ?case
    using kK Suc.prems by (simp add: upt_conv_Cons cf)
qed

lemma first_loop_Zero:
  assumes cf: "coef k' = Inr cf" and K: "2 \<le> K"
  shows "first_loop k' (tab3 B C K p) [1..<K] Zero
           = Inr (Acc (tab2 B C (\<lambda>b c. \<Sum>j = 1..<K. cf * p b c j)))"
proof -
  have "first_loop k' (tab3 B C K p) [Suc 1..<K]
            (Acc (tab2 B C (\<lambda>b c. \<Sum>j = 1..<Suc 1. cf * p b c j)))
        = Inr (Acc (tab2 B C (\<lambda>b c. \<Sum>j = 1..<K. cf * p b c j)))"
    using K by (intro first_loop_tab[OF cf]) auto
  moreover have "[1..<K] = 1 # [Suc 1..<K]"
    using K by (simp add: upt_conv_Cons)
  ultimately show ?thesis
    using K by (simp add: cf)
qed

lemma inner_loop_tab:
  assumes cf: "coef k' = Inr cf"
    and g: "\<And>j b c. g j b c = (if j \<noteq> i then cf * p b c j else 0)"
  shows "k \<le> K \<Longrightarrow>
   inner_loop k' (tab3 B C K p) i [k..<K] (Acc (tab2 B C (\<lambda>b c. \<Sum>j<k. g j b c)))
     = Inr (Acc (tab2 B C (\<lambda>b c. \<Sum>j<K. g j b c)))"
proof (induction "K - k" arbitrary: k)
  case 0
  then show ?case by simp
next
  case (Suc d)
  then have kK: "k < K" by simp
  have IH: "inner_loop k' (tab3 B C K p) i [Suc k..<K] (Acc (tab2 B C (\<lambda>b c. \<Sum>j<Suc k. g j b c)))
        = Inr (Acc (tab2 B C (\<lambda>b c. \<Sum>j<K. g j b c)))"
    using Suc.hyps(2) Suc.prems kK by (intro Suc.hyps(1)) auto
  show ?case
  proof (cases "k = i")
    case True
    then have "\<And>b c. g k b c = 0" by (simp add: g)
    then have "tab2 B C (\<lambda>b c. \<Sum>j<Suc k. g j b c) = tab2 B C (\<lambda>b c. \<Sum>j<k. g j b c)"
      by simp
    with IH True kK show ?thesis by (simp add: upt_conv_Cons)
  next
    case False
    then have "\<And>b c. g k b c = cf * p b c k" by (simp add: g)
    then have "tab2 B C (\<lambda>b c. \<Sum>j<Suc k. g j b c)
                 = tab2 B C (\<lambda>b c. (\<Sum>j<k. g j b c) + cf * p b c k)"
      by simp
    with IH False kK show ?thesis by (simp add: upt_conv_Cons cf)
  qed
qed

lemma inner_loop_Zero:
  assumes cf: "coef k' = Inr cf"
    and g: "\<And>j b c. g j b c = (if j \<noteq> i then cf * p b c j else 0)"
    and K: "1 \<le> K" and i: "i \<noteq> 0"
  shows "inner_loop k' (tab3 B C K p) i [0..<K] Zero
           = Inr (Acc (tab2 B C (\<lambda>b c. \<Sum>j<K. g j b c)))"
proof -
  have "inner_loop k' (tab3 B C K p) i [1..<K] (Acc (tab2 B C (\<lambda>b c. \<Sum>j<1. g j b c)))
        = Inr (Acc (tab2 B C (\<lambda>b c. \<Sum>j<K. g j b c)))"
    using K by (intro inner_loop_tab[OF cf g]) auto
  moreover have "[0..<K] = 0 # [1..<K]"
    using K by (simp add: upt_conv_Cons)
  moreover have "\<And>b c. g 0 b c = cf * p b c 0"
    using i by (simp add: g)
  ultimately show ?thesis
    using K i by (simp add: cf)
qed

lemma acc_unsqueeze_tab [simp]:
  "acc_unsqueeze (Acc (tab2 B C f)) = Inr (tab3 B C 1 (\<lambda>b c i. f b c))"
  by (simp add: acc_unsqueeze_def)

lemma outer_loop_tab:
  assumes cf: "coef k' = Inr cf"
    and g: "\<And>i j b c. g i j b c = (if j \<noteq> i then cf * p b c j else 0)"
  shows "1 \<le> k \<Longrightarrow> k \<le> K \<Longrightarrow> nat k' = K \<Longrightarrow>
   outer_loop k' (tab3 B C K p) [k..<K] (tab3 B C k (\<lambda>b c i. \<Sum>j<K. g i j b c))
     = Inr (tab3 B C K (\<lambda>b c i. \<Sum>j<K. g i j b c))"
proof (induction "K - k" arbitrary: k)
  case 0
  then show ?case by simp
next
  case (Suc d)
  then have kK: "k < K" and k0: "k \<noteq> 0" by simp_all
  have IH: "outer_loop k' (tab3 B C K p) [Suc k..<K] (tab3 B C (Suc k) (\<lambda>b c i. \<Sum>j<K. g i j b c))
        = Inr (tab3 B C K (\<lambda>b c i. \<Sum>j<K. g i j b c))"
    using Suc.hyps(2) Suc.prems kK by (intro Suc.hyps(1)) auto
  have inner: "inner_loop k' (tab3 B C K p) k [0..<K] Zero
           = Inr (Acc (tab2 B C (\<lambda>b c. \<Sum>j<K. g k j b c)))"
    using kK k0 by (intro inner_loop_Zero[OF cf]) (auto simp: g)
  have step: "tab3 B C (Suc k) (\<lambda>b c i. if i < k then \<Sum>j<K. g i j b c else \<Sum>j<K. g k j b c)
                = tab3 B C (Suc k) (\<lambda>b c i. \<Sum>j<K. g i j b c)"
    by (auto intro!: tab3_cong simp: less_Suc_eq)
  have unfold: "[k..<K] = k # [Suc k..<K]"
    using kK by (simp add: upt_conv_Cons)
  show ?case
    by (simp add: unfold Suc.prems(3) inner step IH)
qed

lemma sum_skip_first:
  fixes f :: "nat \<Rightarrow> real"
  shows "(\<Sum>j = 1..<K. f j) = (\<Sum>j<K. if j \<noteq> 0 then f j else 0)"
proof (induction K)
  case 0
  then show ?case by simp
next
  case (Suc K)
  then show ?case by (cases "K = 0") (simp_all add: sum.atLeastLessThan_Suc)
qed

lemma sum_skip:
  fixes f :: "nat \<Rightarrow> real"
  shows "(\<Sum>j<K. if j \<noteq> i then cf * f j else 0) = cf * (\<Sum>j \<in> {..<K} - {i}. f j)"
proof -
  have "(\<Sum>j<K. if j \<noteq> i then cf * f j else 0) = (\<Sum>j \<in> {..<K} - {i}. cf * f j)"
    by (intro sum.mono_neutral_cong_right) auto
  then show ?thesis by (simp add: sum_distrib_left)
qed

lemma avg_fusion_tab:
  assumes K: "2 \<le> K"
  shows "avg_fusion (tab3 B C K p) (int K)
           = Inr (tab3 B C K (\<lambda>b c i. 1 / real (K - 1) * (\<Sum>j \<in> {..<K} - {i}. p b c j)))"
proof -
  define cf where "cf = 1 / real (K - 1)"
  define g where "g i j b c = (if j \<noteq> i then cf * p b c j else 0)" for i j :: nat and b c :: nat
  have cf: "coef (int K) = Inr cf"
    using K by (simp add: coef_def cf_def of_nat_diff)
  have first: "first_loop (int K) (tab3 B C K p) [1..<K] Zero
           = Inr (Acc (tab2 B C (\<lambda>b c. \<Sum>j<K. g 0 j b c)))"
    unfolding g_def using first_loop_Zero[OF cf K, of B C p] by (simp only: sum_skip_first)
  have zero: "tab3 B C 1 (\<lambda>b c i. \<Sum>j<K. g 0 j b c) = tab3 B C 1 (\<lambda>b c i. \<Sum>j<K. g i j b c)"
    by (intro tab3_cong) simp
  have outer: "outer_loop (int K) (tab3 B C K p) [1..<K] (tab3 B C 1 (\<lambda>b c i. \<Sum>j<K. g i j b c))
     = Inr (tab3 B C K (\<lambda>b c i. \<Sum>j<K. g i j b c))"
    using K by (intro outer_loop_tab[OF cf]) (auto simp: g_def)
  have "avg_fusion (tab3 B C K p) (int K) = Inr (tab3 B C K (\<lambda>b c i. \<Sum>j<K. g i j b c))"
    by (simp only: avg_fusion_def nat_int first bnd_Inr acc_unsqueeze_tab zero outer)
  also have "tab3 B C K (\<lambda>b c i. \<Sum>j<K. g i j b c)
               = tab3 B C K (\<lambda>b c i. cf * (\<Sum>j \<in> {..<K} - {i}. p b c j))"
    by (intro tab3_cong) (simp add: g_def sum_skip)
  finally show ?thesis by (simp add: cf_def)
qed


lemma nat_num [simp]: "num_branches self = int K \<Longrightarrow> nat (num_branches self) = K"
  by simp

lemma branch_logits_stack:
  assumes heads: "\<And>i. i < K \<Longrightarrow> head self x i = Inr (L i)"
    and shapes: "\<And>i. i < K \<Longrightarrow> has_shape2 B C (L i)"
    and K: "num_branches self = int K" "1 \<le> K"
  shows "branch_logits self x = Inr (tab3 B C K (\<lambda>b c i. L i ! b ! c))"
proof -
  have h: "head self x i = Inr (tab2 B C (\<lambda>b c. L i ! b ! c))" if "i < K" for i
    using heads[OF that] has_shape2_eq_tab2[OF shapes[OF that]] by simp
  have "cat_loop (head self x) [1..<K] (tab3 B C 1 (\<lambda>b c i. L i ! b ! c))
          = Inr (tab3 B C K (\<lambda>b c i. L i ! b ! c))"
    using K by (intro cat_loop_tab h) auto
  moreover have "tab3 B C 1 (\<lambda>b c i. L 0 ! b ! c) = tab3 B C 1 (\<lambda>b c i. L i ! b ! c)"
    by (intro tab3_cong) simp
  ultimately show ?thesis
    using h[of 0] K by (simp add: branch_logits_def)
qed


subsection \<open>The gradient-scaling tap\<close>

text \<open>
  Claim C5. The forward pass of the tap returns its input unchanged; the backward pass,
  run on the context that the forward pass left, returns the upstream gradient with
  every entry multiplied by \<open>1 / K\<close>, where \<open>K\<close> is the branch count given to the forward
  pass (and \<open>None\<close> for the count itself). \<open>ILR.apply\<close>, which \<open>DenseNet.forward\<close> calls
  with \<open>self.num_branches\<close>, returns the trunk output unchanged.
\<close>

theorem ILR_identity_and_scaled_gradient:
  assumes "k \<noteq> 0"
  shows "snd (ILR_forward c x k) = x \<and>
         ILR_apply x k = Inr x \<and>
         call_tap (Tap ILR_apply) x k = Inr x \<and>
         ILR_backward (fst (ILR_forward c x k)) g
           = Inr (map (map (map (map (\<lambda>v. v * (1 / real_of_int k))))) g, None)"
  using assms by (simp add: ILR_forward_def ILR_apply_def ILR_backward_def div4_def call_tap_def)

theorem ILR_four_branches_witness:
  "(4::int) \<noteq> 0 \<and>
   snd (ILR_forward \<lparr>ctx_num_branches = None\<rparr> toy_x 4) = toy_x \<and>
   ILR_backward (fst (ILR_forward \<lparr>ctx_num_branches = None\<rparr> toy_x 4)) [[[[1, 1]], [[1, 1]]]]
     = Inr ([[[[1 / 4, 1 / 4]], [[1 / 4, 1 / 4]]]], None)"
  using ILR_identity_and_scaled_gradient [of 4 "\<lparr>ctx_num_branches = None\<rparr>" toy_x "[[[[1, 1]], [[1, 1]]]]"]
  by simp


subsection \<open>Stacking and fusion on tensors of a given shape\<close>

lemma branch_logits_mb_stack:
  assumes head0: "head0_mb self x = Inr (L 0)"
    and heads: "\<And>i. 1 \<le> i \<Longrightarrow> i < K \<Longrightarrow> head_mb self x i = Inr (L i)"
    and shapes: "\<And>i. i < K \<Longrightarrow> has_shape2 B C (L i)"
    and K: "num_branches self = int K" "1 \<le> K"
  shows "branch_logits_mb self x = Inr (tab3 B C K (\<lambda>b c i. L i ! b ! c))"
proof -
  have h: "head_mb self x i = Inr (tab2 B C (\<lambda>b c. L i ! b ! c))" if "1 \<le> i" "i < K" for i
    using heads[OF that] has_shape2_eq_tab2[OF shapes[OF that(2)]] by simp
  have h0: "head0_mb self x = Inr (tab2 B C (\<lambda>b c. L 0 ! b ! c))"
    using head0 has_shape2_eq_tab2[OF shapes[of 0]] K by simp
  have "cat_loop (head_mb self x) [1..<K] (tab3 B C 1 (\<lambda>b c i. L i ! b ! c))
          = Inr (tab3 B C K (\<lambda>b c i. L i ! b ! c))"
    using K by (intro cat_loop_tab h) auto
  moreover have "tab3 B C 1 (\<lambda>b c i. L 0 ! b ! c) = tab3 B C 1 (\<lambda>b c i. L i ! b ! c)"
    by (intro tab3_cong) simp
  ultimately show ?thesis
    using h0 K by (simp add: branch_logits_mb_def)
qed

lemma gated_fusion_shaped:
  assumes "has_shape3 B C K pro" "has_shape2 B K w" "1 \<le> K"
  shows "gated_fusion w pro (int K) = Inr (tab2 B C (\<lambda>b c. \<Sum>i<K. w ! b ! i * pro ! b ! c ! i))"
  using gated_fusion_tab[OF \<open>1 \<le> K\<close>, of B "\<lambda>b i. w ! b ! i" C "\<lambda>b c i. pro ! b ! c ! i"]
    has_shape2_eq_tab2[OF assms(2)] has_shape3_eq_tab3[OF assms(1)]
  by simp

lemma avg_fusion_shaped:
  assumes "has_shape3 B C K pro" "2 \<le> K"
  shows "avg_fusion pro (int K)
          = Inr (tab3 B C K (\<lambda>b c i. 1 / real (K - 1) * (\<Sum>j \<in> {..<K} - {i}. pro ! b ! c ! j)))"
  using avg_fusion_tab[OF \<open>2 \<le> K\<close>, of B C "\<lambda>b c i. pro ! b ! c ! i"]
    has_shape3_eq_tab3[OF assms(1)]
  by simp


subsection \<open>Attributes of constructed models\<close>

lemma setattr_simps [simp]:
  "attrs (setattr s n v) = (attrs s)(n \<mapsto> v)"
  "num_branches (setattr s n v) = num_branches s"
  "avg (setattr s n v) = avg s"
  "ind (setattr s n v) = ind s"
  "bpscale (setattr s n v) = bpscale s"
  by (simp_all add: setattr_def)

lemma fold_setattr_flags [simp]:
  "num_branches (fold (\<lambda>i s. setattr s (n i) (v i)) is s) = num_branches s"
  "avg (fold (\<lambda>i s. setattr s (n i) (v i)) is s) = avg s"
  "ind (fold (\<lambda>i s. setattr s (n i) (v i)) is s) = ind s"
  "bpscale (fold (\<lambda>i s. setattr s (n i) (v i)) is s) = bpscale s"
  by (induction "is" arbitrary: s; simp)+

lemma fold_setattr2_flags [simp]:
  "num_branches (fold (\<lambda>i s. setattr (setattr s (n i) (v i)) (n' i) (v' i)) is s) = num_branches s"
  "avg (fold (\<lambda>i s. setattr (setattr s (n i) (v i)) (n' i) (v' i)) is s) = avg s"
  "ind (fold (\<lambda>i s. setattr (setattr s (n i) (v i)) (n' i) (v' i)) is s) = ind s"
  "bpscale (fold (\<lambda>i s. setattr (setattr s (n i) (v i)) (n' i) (v' i)) is s) = bpscale s"
  by (induction "is" arbitrary: s; simp)+

lemma fold_setattr_other:
  "(\<And>i. n i \<noteq> name) \<Longrightarrow> attrs (fold (\<lambda>i s. setattr s (n i) (v i)) is s) name = attrs s name"
  by (induction "is" arbitrary: s) auto

lemma fold_setattr2_other:
  "(\<And>i. n i \<noteq> name) \<Longrightarrow> (\<And>i. n' i \<noteq> name) \<Longrightarrow>
   attrs (fold (\<lambda>i s. setattr (setattr s (n i) (v i)) (n' i) (v' i)) is s) name = attrs s name"
  by (induction "is" arbitrary: s) auto

lemma dense_blocks_flags [simp]:
  "num_branches (fst (dense_blocks mk a cfg s nf)) = num_branches s"
  "avg (fst (dense_blocks mk a cfg s nf)) = avg s"
  "ind (fst (dense_blocks mk a cfg s nf)) = ind s"
  "bpscale (fst (dense_blocks mk a cfg s nf)) = bpscale s"
  by (induction mk a cfg s nf rule: dense_blocks.induct; simp)+

lemma dense_blocks_other:
  "(\<And>i. ''layer3_'' @ str i \<noteq> name) \<Longrightarrow>
   attrs (fst (dense_blocks mk a cfg s nf)) name = attrs s name"
  by (induction mk a cfg s nf rule: dense_blocks.induct) (simp_all add: fold_setattr_other)

lemma DenseNet_init_succeeds:
  assumes "0 < dn_compression a" "dn_compression a \<le> 1" "dn_block_config a \<noteq> []"
  shows "\<exists>self. DenseNet_init mk a = Inr self"
  using assms by (cases "dn_block_config a") (simp_all add: DenseNet_init_def Let_def split_beta)

lemma DenseNet_init_fields:
  assumes "DenseNet_init mk a = Inr self"
  shows "num_branches self = dn_num_branches a" "avg self = dn_avg a" "ind self = dn_ind a"
    "bpscale self = dn_bpscale a"
    "(attrs self ''control_v1'' \<noteq> None) = (\<not> dn_avg a)"
    "(attrs self ''bn_v1'' \<noteq> None) = (\<not> dn_avg a)"
  using assms
  by (auto simp: DenseNet_init_def Let_def split_beta fold_setattr_other fold_setattr2_other
      dense_blocks_other split: if_splits list.splits)

lemma MobileNetV2_init_fields:
  assumes "MobileNetV2_init mk a = Inr self"
  shows "num_branches self = mb_num_branches a" "avg self = mb_avg a" "ind self = mb_ind a"
    "(attrs self ''control_v1'' \<noteq> None) = (\<not> mb_avg a)"
    "(attrs self ''bn_v1'' \<noteq> None) = (\<not> mb_avg a)"
    "attrs self ''avgpool'' = None"
    "mb_num_branches a \<le> 0 \<Longrightarrow> attrs self ''layer4_0'' = None"
  using assms
  by (auto simp: MobileNetV2_init_def Let_def split_beta fold_setattr_other fold_setattr2_other
      bnd_def split: if_splits list.splits sum.splits option.splits)


lemma bnd_isl: "isl m \<Longrightarrow> isl (bnd m f)"
  by (cases m) simp_all

lemma head_mb_no_avgpool:
  assumes "attrs self ''avgpool'' = None"
  shows "isl (head_mb self x i)"
    and "getattr self (''layer4_'' @ str i) = Inr l \<Longrightarrow> call4 l x = Inr t \<Longrightarrow>
         head_mb self x i = Inl (AttributeError ''avgpool'')"
  using assms
  by (auto simp: head_mb_def getattr_def bnd_def split: sum.splits option.splits)

lemma cat_loop_first_fails: "isl (h i) \<Longrightarrow> cat_loop h (i # is) pro = Inl (projl (h i))"
  by (cases "h i") simp_all

lemma branch_logits_mb_two_branches:
  assumes "attrs self ''avgpool'' = None" and "2 \<le> num_branches self"
  shows "isl (branch_logits_mb self x)"
    and "head0_mb self x = Inr L0 \<Longrightarrow>
         branch_logits_mb self x = Inl (projl (head_mb self x 1))"
proof -
  have upt: "[1..<nat (num_branches self)] = 1 # [2..<nat (num_branches self)]"
    using assms(2) by (simp add: upt_conv_Cons numeral_2_eq_2)
  have loop: "cat_loop (head_mb self x) [1..<nat (num_branches self)] pro
                = Inl (projl (head_mb self x 1))" for pro
    unfolding upt using head_mb_no_avgpool(1)[OF assms(1)] by (rule cat_loop_first_fails)
  show "branch_logits_mb self x = Inl (projl (head_mb self x 1))" if "head0_mb self x = Inr L0"
    unfolding branch_logits_mb_def that bnd_Inr loop ..
  show "isl (branch_logits_mb self x)"
  proof (cases "head0_mb self x")
    case (Inl e)
    then show ?thesis by (simp add: branch_logits_mb_def)
  next
    case (Inr m)
    have "branch_logits_mb self x = Inl (projl (head_mb self x 1))"
      unfolding branch_logits_mb_def Inr bnd_Inr loop ..
    then show ?thesis by simp
  qed
qed

lemma forward_impl_two_branches:
  assumes "attrs self ''avgpool'' = None" and "2 \<le> num_branches self"
  shows "isl (forward_impl self x0)"
    and "trunk_mb self x0 = Inr x \<Longrightarrow> head0_mb self x = Inr L0 \<Longrightarrow>
         getattr self (''layer4_'' @ str 1) = Inr l \<Longrightarrow> call4 l x = Inr t \<Longrightarrow>
         forward_impl self x0 = Inl (AttributeError ''avgpool'')"
proof -
  show "isl (forward_impl self x0)"
  proof (cases "trunk_mb self x0")
    case (Inl e)
    then show ?thesis by (simp add: forward_impl_def)
  next
    case (Inr x)
    then show ?thesis
      using branch_logits_mb_two_branches(1)[OF assms, of x]
      by (cases "branch_logits_mb self x") (simp_all add: forward_impl_def)
  qed
  show "forward_impl self x0 = Inl (AttributeError ''avgpool'')"
    if "trunk_mb self x0 = Inr x" "head0_mb self x = Inr L0"
      "getattr self (''layer4_'' @ str 1) = Inr l" "call4 l x = Inr t"
    using that(1) branch_logits_mb_two_branches(2)[OF assms that(2)]
      head_mb_no_avgpool(2)[OF assms(1) that(3,4)]
    by (simp add: forward_impl_def)
qed

lemma forward_impl_no_branches:
  assumes "attrs self ''layer4_0'' = None"
  shows "isl (forward_impl self x0)"
  using assms
  by (auto simp: forward_impl_def branch_logits_mb_def head0_mb_def getattr_def bnd_def
      split: sum.splits)


lemma avg_fusion_one_branch: "avg_fusion pro 1 = Inl (AttributeError ''unsqueeze'')"
  by (simp add: avg_fusion_def acc_unsqueeze_def)

lemma forward_avg_one_branch:
  assumes "num_branches self = 1" "avg self" "\<not> ind self"
  shows "isl (forward self x0)"
    and "trunk self x0 = Inr x \<Longrightarrow> branch_logits self x = Inr pro \<Longrightarrow>
         forward self x0 = Inl (AttributeError ''unsqueeze'')"
proof -
  show "forward self x0 = Inl (AttributeError ''unsqueeze'')"
    if "trunk self x0 = Inr x" "branch_logits self x = Inr pro"
    using that assms by (simp add: forward_def avg_fusion_one_branch)
  show "isl (forward self x0)"
  proof (cases "trunk self x0")
    case (Inl e)
    then show ?thesis by (simp add: forward_def)
  next
    case x: (Inr x)
    show ?thesis
    proof (cases "branch_logits self x")
      case (Inl e)
      with x show ?thesis by (simp add: forward_def)
    next
      case (Inr pro)
      with x assms show ?thesis by (simp add: forward_def avg_fusion_one_branch)
    qed
  qed
qed


lemma MutualNet_loop_unknown:
  assumes "model \<notin> set families"
  shows "MutualNet_loop z model num_classes dropout (i # is) self = Inl (NotImplementedError model)"
  using assms by (simp add: families_def)


lemma dom_fold_setattr:
  "dom (attrs (fold (\<lambda>i s. setattr s (n i) (v i)) is s)) = dom (attrs s) \<union> n ` set is"
  by (induction "is" arbitrary: s) auto

lemma dom_fold_setattr2:
  "dom (attrs (fold (\<lambda>i s. setattr (setattr s (n i) (v i)) (n' i) (v' i)) is s))
     = dom (attrs s) \<union> n ` set is \<union> n' ` set is"
  by (induction "is" arbitrary: s) auto

lemma dom_dense_blocks:
  "dom (attrs (fst (dense_blocks mk a cfg s nf)))
     = dom (attrs s) \<union>
       (if cfg = [] then {} else (\<lambda>i. ''layer3_'' @ str i) ` {0..<nat (num_branches s)})"
  by (induction mk a cfg s nf rule: dense_blocks.induct) (simp_all add: dom_fold_setattr)

lemma DenseNet_init_dom:
  assumes "DenseNet_init mk a = Inr self"
  shows "dom (attrs self) =
           {''features'', ''avgpool''} \<union>
           (\<lambda>i. ''layer3_'' @ str i) ` {0..<nat (dn_num_branches a)} \<union>
           (\<lambda>i. ''norm_final_'' @ str i) ` {0..<nat (dn_num_branches a)} \<union>
           (\<lambda>i. ''relu_final_'' @ str i) ` {0..<nat (dn_num_branches a)} \<union>
           (\<lambda>i. ''classifier3_'' @ str i) ` {0..<nat (dn_num_branches a)} \<union>
           (if dn_avg a then {} else {''control_v1'', ''bn_v1''}) \<union>
           (if dn_bpscale a then {''layer_ILR''} else {})"
    and "dn_bpscale a \<Longrightarrow> attrs self ''layer_ILR'' = Some (Tap ILR_apply)"
proof -
  define K where "K = {0..<nat (dn_num_branches a)}"
  define s0 where "s0 = \<lparr>num_branches = dn_num_branches a, avg = dn_avg a, ind = dn_ind a,
                     bpscale = dn_bpscale a, attrs = Map.empty\<rparr>"
  define s1 where "s1 = setattr s0 ''features''
                      (mk ''features'' (dn_num_init_features a # dn_block_config a))"
  define r where "r = dense_blocks mk a (dn_block_config a) s1 (dn_num_init_features a)"
  define s3 where "s3 = (if avg (fst r) = False
                     then setattr
                            (setattr (fst r) ''control_v1''
                               (mk ''control_v1'' [snd r, num_branches (fst r)]))
                            ''bn_v1'' (mk ''bn_v1'' [dn_num_branches a])
                     else fst r)"
  define nf where "nf = snd r + last (dn_block_config a) * dn_growth_rate a"
  define s4 where "s4 = fold (\<lambda>i s. setattr
                                   (setattr s (''norm_final_'' @ str i)
                                      (mk (''norm_final_'' @ str i) [nf]))
                                   (''relu_final_'' @ str i) (mk (''relu_final_'' @ str i) []))
                             [0..<nat (num_branches s3)] s3"
  define s5 where "s5 = fold (\<lambda>i s. setattr s (''classifier3_'' @ str i)
                                   (mk (''classifier3_'' @ str i) [nf, dn_num_classes a]))
                             [0..<nat (num_branches s4)] s4"
  define s6 where "s6 = setattr s5 ''avgpool'' (Conv adaptive_avg_pool2d)"
  define s7 where "s7 = (if bpscale s6 then setattr s6 ''layer_ILR'' (Tap ILR_apply) else s6)"
  from assms have cfg: "dn_block_config a \<noteq> []"
    by (cases "dn_block_config a") (auto simp: DenseNet_init_def Let_def split_beta split: if_splits)
  have "DenseNet_init mk a = Inr s7 \<or> DenseNet_init mk a = Inl AssertionError"
    using cfg unfolding DenseNet_init_def Let_def split_beta
      s7_def s6_def s5_def s4_def nf_def s3_def r_def s1_def s0_def
    by (cases "dn_block_config a") simp_all
  with assms have self: "self = s7" by simp
  have f1: "num_branches (fst r) = dn_num_branches a" "avg (fst r) = dn_avg a"
    by (simp_all add: r_def s1_def s0_def)
  have f3: "num_branches s3 = dn_num_branches a"
    by (simp add: s3_def f1)
  have f4: "num_branches s4 = dn_num_branches a"
    by (simp add: s4_def f3)
  have f6: "bpscale s6 = dn_bpscale a"
    by (simp add: s6_def s5_def s4_def s3_def r_def s1_def s0_def)
  have d1: "dom (attrs s1) = {''features''}"
    by (simp add: s1_def s0_def)
  have d2: "dom (attrs (fst r)) = {''features''} \<union> (\<lambda>i. ''layer3_'' @ str i) ` K"
    using cfg by (simp add: r_def dom_dense_blocks d1 K_def) (simp add: s1_def s0_def)
  have d3: "dom (attrs s3) = dom (attrs (fst r)) \<union>
              (if dn_avg a then {} else {''control_v1'', ''bn_v1''})"
    by (auto simp: s3_def f1)
  have d4: "dom (attrs s4) = dom (attrs s3) \<union> (\<lambda>i. ''norm_final_'' @ str i) ` K \<union>
              (\<lambda>i. ''relu_final_'' @ str i) ` K"
    by (simp add: s4_def dom_fold_setattr2 f3 K_def)
  have d5: "dom (attrs s5) = dom (attrs s4) \<union> (\<lambda>i. ''classifier3_'' @ str i) ` K"
    by (simp add: s5_def dom_fold_setattr f4 K_def)
  have d6: "dom (attrs s6) = insert ''avgpool'' (dom (attrs s5))"
    by (simp add: s6_def)
  have d7: "dom (attrs s7) = dom (attrs s6) \<union> (if dn_bpscale a then {''layer_ILR''} else {})"
    by (simp add: s7_def f6)
  show "dom (attrs self) =
           {''features'', ''avgpool''} \<union>
           (\<lambda>i. ''layer3_'' @ str i) ` {0..<nat (dn_num_branches a)} \<union>
           (\<lambda>i. ''norm_final_'' @ str i) ` {0..<nat (dn_num_branches a)} \<union>
           (\<lambda>i. ''relu_final_'' @ str i) ` {0..<nat (dn_num_branches a)} \<union>
           (\<lambda>i. ''classifier3_'' @ str i) ` {0..<nat (dn_num_branches a)} \<union>
           (if dn_avg a then {} else {''control_v1'', ''bn_v1''}) \<union>
           (if dn_bpscale a then {''layer_ILR''} else {})"
    unfolding self d7 d6 d5 d4 d3 d2 K_def[symmetric] by blast
  show "attrs self ''layer_ILR'' = Some (Tap ILR_apply)" if "dn_bpscale a"
    using that by (simp add: self s7_def f6)
qed


text \<open>Every attribute that \<open>DenseNet.forward\<close> reads for a branch below the branch
  count exists on a constructed model, so the forward pass of such a model can only fail
  inside a library layer or on shapes.\<close>

lemma DenseNet_init_lookups:
  assumes "DenseNet_init mk a = Inr self" and "i < nat (dn_num_branches a)"
  shows "\<not> isl (getattr self ''features'')" "\<not> isl (getattr self ''avgpool'')"
    "\<not> isl (getattr self (''layer3_'' @ str i))" "\<not> isl (getattr self (''norm_final_'' @ str i))"
    "\<not> isl (getattr self (''relu_final_'' @ str i))" "\<not> isl (getattr self (''classifier3_'' @ str i))"
proof -
  have in_dom: "\<not> isl (getattr self name)" if "name \<in> dom (attrs self)" for name
    using that by (auto simp: getattr_def)
  have i: "i \<in> {0..<nat (dn_num_branches a)}" using assms(2) by simp
  show "\<not> isl (getattr self ''features'')" "\<not> isl (getattr self ''avgpool'')"
    by (rule in_dom, simp add: DenseNet_init_dom(1)[OF assms(1)])+
  show "\<not> isl (getattr self (''layer3_'' @ str i))"
    by (rule in_dom, unfold DenseNet_init_dom(1)[OF assms(1)]) (use i in blast)
  show "\<not> isl (getattr self (''norm_final_'' @ str i))"
    by (rule in_dom, unfold DenseNet_init_dom(1)[OF assms(1)]) (use i in blast)
  show "\<not> isl (getattr self (''relu_final_'' @ str i))"
    by (rule in_dom, unfold DenseNet_init_dom(1)[OF assms(1)]) (use i in blast)
  show "\<not> isl (getattr self (''classifier3_'' @ str i))"
    by (rule in_dom, unfold DenseNet_init_dom(1)[OF assms(1)]) (use i in blast)
qed

lemma bnd_Inr_right: "bnd m Inr = m"
  by (cases m) simp_all

text \<open>In the forward pass of a constructed \<open>DenseNet\<close> the tap changes nothing.\<close>

lemma densenet_tap_is_identity:
  assumes "DenseNet_init mk a = Inr self"
  shows "trunk self x0 = bnd (getattr self ''features'') (\<lambda>f. call4 f x0)"
proof (cases "dn_bpscale a")
  case True
  then have "getattr self ''layer_ILR'' = Inr (Tap ILR_apply)"
    using DenseNet_init_dom(2)[OF assms] by (simp add: getattr_def)
  moreover have "call_tap (Tap ILR_apply) x k = Inr x" for x k
    by (simp add: call_tap_def ILR_apply_def ILR_forward_def)
  moreover have "bpscale self"
    using True DenseNet_init_fields(4)[OF assms] by simp
  ultimately show ?thesis
    by (simp add: trunk_def bnd_Inr_right)
next
  case False
  then have "\<not> bpscale self"
    using DenseNet_init_fields(4)[OF assms] by simp
  then show ?thesis
    by (simp add: trunk_def bnd_Inr_right)
qed

text \<open>The leave-one-out branch of \<open>MobileNetV2._forward_impl\<close> assigns nothing to
  \<open>x_m\<close>: with \<open>avg = True\<close> and \<open>ind = False\<close> every forward call raises.\<close>

lemma mobilenet_avg_mode_raises:
  assumes "avg self" and "\<not> ind self"
  shows "isl (forward_impl self x0)"
proof (cases "trunk_mb self x0")
  case (Inl e)
  then show ?thesis by (simp add: forward_impl_def)
next
  case x: (Inr x)
  show ?thesis
  proof (cases "branch_logits_mb self x")
    case (Inl e)
    with x show ?thesis by (simp add: forward_impl_def)
  next
    case (Inr pro)
    with x assms show ?thesis by (simp add: forward_impl_def)
  qed
qed

text \<open>The \<open>DenseNet\<close> side of claim C1: when the heads of the \<open>K \<ge> 1\<close> branches return
  \<open>B \<times> C\<close> matrices, \<open>pro\<close> has shape \<open>[B, C, K]\<close> and holds the logits of branch \<open>i\<close> at
  index \<open>i\<close> of the last axis; it is the first component of whatever \<open>forward\<close> returns.\<close>

lemma densenet_per_branch_logits:
  assumes "trunk self x0 = Inr x"
    and "\<And>i. i < K \<Longrightarrow> head self x i = Inr (L i)"
    and "\<And>i. i < K \<Longrightarrow> has_shape2 B C (L i)"
    and "num_branches self = int K" and "1 \<le> K"
  shows "\<exists>pro. branch_logits self x = Inr pro \<and> has_shape3 B C K pro \<and>
           (\<forall>b<B. \<forall>c<C. \<forall>i<K. pro ! b ! c ! i = L i ! b ! c) \<and>
           (\<forall>r. forward self x0 = Inr r \<longrightarrow> fst r = pro) \<and>
           (ind self \<longrightarrow> forward self x0 = Inr (pro, None))"
proof -
  let ?pro = "tab3 B C K (\<lambda>b c i. L i ! b ! c)"
  have pro: "branch_logits self x = Inr ?pro"
    using assms(2-5) by (rule branch_logits_stack)
  have "fst r = ?pro" if "forward self x0 = Inr r" for r
    using that assms(1) pro by (auto simp: forward_def bnd_def split: if_splits sum.splits)
  moreover have "forward self x0 = Inr (?pro, None)" if "ind self"
    using that assms(1) pro by (simp add: forward_def)
  ultimately show ?thesis
    using pro by (intro exI[of _ ?pro]) simp
qed

subsection \<open>The gate\<close>

lemma sum_list_exp_pos: "r \<noteq> [] \<Longrightarrow> 0 < sum_list (map exp (r :: real list))"
proof (cases r)
  case Nil
  assume "r \<noteq> []"
  with Nil show ?thesis by simp
next
  case (Cons a r')
  have "0 \<le> sum_list (map exp r')"
    by (rule sum_list_nonneg) auto
  then have "0 < exp a + sum_list (map exp r')"
    by (intro add_pos_nonneg) simp_all
  with Cons show ?thesis by simp
qed

lemma softmax_row_nonneg: "v \<in> set (softmax_row r) \<Longrightarrow> 0 \<le> v"
  by (auto simp: softmax_row_def intro!: divide_nonneg_nonneg sum_list_nonneg)

lemma softmax_row_sum: "r \<noteq> [] \<Longrightarrow> sum_list (softmax_row r) = 1"
proof -
  assume "r \<noteq> []"
  then have pos: "0 < sum_list (map exp r)" by (rule sum_list_exp_pos)
  have "sum_list (softmax_row r) = sum_list (map (\<lambda>v. (1 / sum_list (map exp r)) * exp v) r)"
    by (simp add: softmax_row_def)
  also have "\<dots> = (1 / sum_list (map exp r)) * sum_list (map exp r)"
    by (rule sum_list_const_mult)
  finally show ?thesis using pos by simp
qed

lemma gate_weights:
  assumes "gate self x = Inr w" and "has_shape2 B K w" and "1 \<le> K" and "b < B"
  shows "\<forall>i<K. 0 \<le> w ! b ! i" and "(\<Sum>i<K. w ! b ! i) = 1"
proof -
  obtain n where w: "w = softmax (relu n)"
    using assms(1) by (auto simp: gate_def bnd_def split: sum.splits)
  have len: "length w = B" "length (w ! b) = K"
    using assms(2,4) by (auto simp: has_shape2_def)
  then have row: "w ! b = softmax_row (relu n ! b)" and "relu n ! b \<noteq> []"
    using assms(3,4) w by (auto simp: softmax_def softmax_row_def)
  show "\<forall>i<K. 0 \<le> w ! b ! i"
    using softmax_row_nonneg[of _ "relu n ! b"] row len(2) by (metis nth_mem)
  have "(\<Sum>i<K. w ! b ! i) = sum_list (w ! b)"
    using len(2) by (simp add: sum_list_sum_nth atLeast0LessThan)
  then show "(\<Sum>i<K. w ! b ! i) = 1"
    using softmax_row_sum[OF \<open>relu n ! b \<noteq> []\<close>] row by simp
qed

lemma gate_stages:
  "gate self x = Inr w \<longleftrightarrow>
     (\<exists>p v l a bn n. adaptive_avg_pool2d x = Inr p \<and> view_rows p (length p) = Inr v \<and>
        getattr self ''control_v1'' = Inr l \<and> call2 l v = Inr a \<and>
        getattr self ''bn_v1'' = Inr bn \<and> call2 bn a = Inr n \<and> w = softmax (relu n))"
  by (auto simp: gate_def bnd_def split: sum.splits)

lemma forward_gated_uses_gate:
  assumes "\<not> ind self" "\<not> avg self"
  shows "forward self x0 = Inr (pro, f) \<Longrightarrow>
           \<exists>x w x_m. trunk self x0 = Inr x \<and> gate self x = Inr w \<and>
              gated_fusion w pro (num_branches self) = Inr x_m \<and> f = Some (T2 x_m)"
    and "forward_impl self x0 = Inr (pro, f) \<Longrightarrow>
           \<exists>x w x_m. trunk_mb self x0 = Inr x \<and> gate self x = Inr w \<and>
              gated_fusion w pro (num_branches self) = Inr x_m \<and> f = Some (T2 x_m)"
  using assms
  by (auto simp: forward_def forward_impl_def bnd_def split: sum.splits)


text \<open>The weights written out: rectifying is \<open>max 0\<close> on every entry, softmax the
  exponential over the row sum of exponentials. A batch-norm output without a positive
  entry is clipped to zeros and gives the uniform weights. Pooling and flattening a
  feature map with the same number of channels in every image gives the matrix of the
  plane means.\<close>

lemma softmax_relu_entries:
  "softmax (relu n)
     = map (\<lambda>r. map (\<lambda>v. exp (max 0 v) / sum_list (map (\<lambda>u. exp (max 0 u)) r)) r) n"
  by (simp add: softmax_def relu_def softmax_row_def comp_def)

lemma rows_concat:
  "\<forall>r \<in> set xs. length r = w \<Longrightarrow> rows (length xs) w (concat xs) = xs"
  by (induction xs) simp_all

lemma length_concat_uniform:
  "\<forall>r \<in> set xs. length r = w \<Longrightarrow> length (concat xs) = length xs * w"
  by (induction xs) simp_all

lemma pooled_rows:
  assumes "adaptive_avg_pool2d x = Inr p" and "view_rows p (length p) = Inr v"
    and "\<forall>img \<in> set x. length img = ch"
  shows "v = map (map (\<lambda>pl. sum_list (concat pl) / real (length (concat pl)))) x"
proof -
  have p: "p = map (map (\<lambda>pl. [[plane_mean pl]])) x"
    using assms(1) by (simp add: adaptive_avg_pool2d_def split: if_splits)
  have x: "x \<noteq> []"
    using assms(2) p by (auto simp: view_rows_def split: if_splits)
  define ys where "ys = map (map plane_mean) x"
  have flat: "flat4 p = concat ys"
    by (simp add: flat4_def p ys_def comp_def map_concat)
  have uni: "\<forall>r \<in> set ys. length r = ch"
    using assms(3) by (simp add: ys_def)
  have len: "length ys = length x" "length p = length x"
    by (simp_all add: ys_def p)
  have "length (flat4 p) div length p = ch"
    using length_concat_uniform[OF uni] x by (simp add: flat len)
  then have "v = rows (length ys) ch (concat ys)"
    using assms(2) by (simp add: view_rows_def flat len split: if_splits)
  then show ?thesis
    using rows_concat[OF uni] by (simp add: ys_def plane_mean_def)
qed


lemma softmax_relu_clipped:
  assumes "\<forall>r \<in> set n. \<forall>u \<in> set r. u \<le> 0"
  shows "softmax (relu n) = map (\<lambda>r. map (\<lambda>u. 1 / real (length r)) r) n"
proof -
  have row: "map (\<lambda>v. exp (max 0 v) / sum_list (map (\<lambda>u. exp (max 0 u)) r)) r
               = map (\<lambda>u. 1 / real (length r)) r" if "r \<in> set n" for r
  proof -
    have z: "max 0 u = 0" if "u \<in> set r" for u
    proof -
      have "u \<le> 0" using assms \<open>r \<in> set n\<close> that by blast
      then show ?thesis by (simp add: max_def)
    qed
    have m: "map (\<lambda>u. exp (max 0 u)) r = map (\<lambda>u. 1) r"
      by (rule map_cong) (simp_all add: z)
    have s: "sum_list (map (\<lambda>u. exp (max 0 u)) r) = real (length r)"
      unfolding m by (simp add: sum_list_triv)
    show ?thesis
      unfolding s by (rule map_cong) (simp_all add: z)
  qed
  show ?thesis
    unfolding softmax_relu_entries by (rule map_cong) (simp_all add: row)
qed

subsection \<open>Evaluation of the concrete instance\<close>

lemma str_digits: "str 0 = ''0''" "str (Suc 0) = ''1''" "str 1 = ''1''" "str 2 = ''2''"
  by (simp_all add: str.simps digit_char_def)

lemma upt_small:
  "[0..<Suc 0] = [0]" "[0..<2] = [0, Suc 0]" "[0..<3] = [0, Suc 0, 2]"
  "[0..<4] = [0, Suc 0, 2, 3]" "[Suc 0..<2] = [Suc 0]" "[Suc 0..<3] = [Suc 0, 2]"
  by (simp_all add: upt_rec)

lemmas toy_eval = toy_densenet_def DenseNet_init_def toy_dn_def toy_mk_def toy_x_def
  toy_mobilenet_def MobileNetV2_init_def toy_mb_def default_setting_def make_divisible_def
  Let_def setattr_def getattr_def upt_small str_digits bnd_def call4_def call2_def call_tap_def
  trunk_def branch_logits_def head_def gate_def trunk_mb_def branch_logits_mb_def head0_mb_def
  head_mb_def adaptive_avg_pool2d_def view_rows_def flat4_def plane_mean_def unsqueeze_def
  cat3_def relu_def py_int_def ILR_apply_def ILR_forward_def

lemma toy_shapes:
  "has_shape3 1 2 2 [[[5, 10], [6, 12]]]" "has_shape3 1 2 3 [[[5, 10, 15], [6, 12, 18]]]"
  "has_shape3 1 2 1 [[[5], [6]]]" "has_shape2 1 2 (softmax [[5, 6]])" "has_shape2 1 1 (softmax [[5]])"
  by (simp_all add: has_shape2_def has_shape3_def softmax_def softmax_row_def)

lemma toy_densenet_gated:
  "trunk (toy_densenet 2 False False False) toy_x = Inr toy_x"
  "branch_logits (toy_densenet 2 False False False) toy_x = Inr [[[5, 10], [6, 12]]]"
  "gate (toy_densenet 2 False False False) toy_x = Inr (softmax [[5, 6]])"
  "num_branches (toy_densenet 2 False False False) = int 2"
  "\<not> ind (toy_densenet 2 False False False)" "\<not> avg (toy_densenet 2 False False False)"
  by (simp_all add: toy_eval)

lemma toy_mobilenet_gated:
  "trunk_mb (toy_mobilenet 1 False False) toy_x = Inr toy_x"
  "branch_logits_mb (toy_mobilenet 1 False False) toy_x = Inr [[[5], [6]]]"
  "gate (toy_mobilenet 1 False False) toy_x = Inr (softmax [[5]])"
  "num_branches (toy_mobilenet 1 False False) = int 1"
  "\<not> ind (toy_mobilenet 1 False False)" "\<not> avg (toy_mobilenet 1 False False)"
  by (simp_all add: toy_eval)

lemma toy_densenet_avg:
  "trunk (toy_densenet 3 False True False) toy_x = Inr toy_x"
  "branch_logits (toy_densenet 3 False True False) toy_x = Inr [[[5, 10, 15], [6, 12, 18]]]"
  "num_branches (toy_densenet 3 False True False) = int 3"
  "\<not> ind (toy_densenet 3 False True False)" "avg (toy_densenet 3 False True False)"
  by (simp_all add: toy_eval)

lemma toy_independent:
  "trunk (toy_densenet 2 True False True) toy_x = Inr toy_x"
  "branch_logits (toy_densenet 2 True False True) toy_x = Inr [[[5, 10], [6, 12]]]"
  "ind (toy_densenet 2 True False True)"
  "trunk_mb (toy_mobilenet 1 False True) toy_x = Inr toy_x"
  "branch_logits_mb (toy_mobilenet 1 False True) toy_x = Inr [[[5], [6]]]"
  "ind (toy_mobilenet 1 False True)"
  by (simp_all add: toy_eval)


lemma toy_mobilenet_two:
  "MobileNetV2_init toy_mk (toy_mb 2 False True) = Inr (toy_mobilenet 2 False True)"
  "forward_impl (toy_mobilenet 2 False True) toy_x = Inl (AttributeError ''avgpool'')"
  "attrs (toy_mobilenet 2 False True) ''avgpool'' = None"
  by (simp_all add: toy_eval forward_impl_def)

lemma toy_mobilenet_one:
  "forward_impl (toy_mobilenet 1 False True) toy_x = Inr ([[[5], [6]]], None)"
  by (simp add: toy_eval forward_impl_def)


lemma toy_gate_negative:
  "adaptive_avg_pool2d [[[[-1, -3]], [[-2, -4]]]] = Inr [[[[-2]], [[-3]]]]"
  "view_rows [[[[-2]], [[-3]]]] (length [[[[-2::real]], [[-3]]]]) = Inr [[-2, -3]]"
  "getattr (toy_densenet 2 False False False) ''control_v1'' = Inr (toy_mk ''control_v1'' [150, 2])"
  "call2 (toy_mk ''control_v1'' [150, 2]) [[-2, -3]] = Inr [[-5, -4]]"
  "getattr (toy_densenet 2 False False False) ''bn_v1'' = Inr (toy_mk ''bn_v1'' [2])"
  "call2 (toy_mk ''bn_v1'' [2]) [[-5, -4]] = Inr [[-5, -4]]"
  by (simp_all add: toy_eval)

section \<open>The claims\<close>

text \<open>
  Claim C1, on \<open>MobileNetV2\<close>. With two classes, two branches and the other
  arguments at their defaults the constructor succeeds, and the forward pass on a batch
  raises AttributeError for \<open>avgpool\<close> in the loop over the branches instead of returning
  the stacked logits. (For \<open>DenseNet\<close> the claim holds: \<open>densenet_per_branch_logits\<close>.)
\<close>

theorem mobilenet_two_branches_forward_raises:
  "MobileNetV2_init toy_mk (toy_mb 2 False True) = Inr (toy_mobilenet 2 False True) \<and>
   forward_impl (toy_mobilenet 2 False True) toy_x = Inl (AttributeError ''avgpool'')"
  by (simp add: toy_eval forward_impl_def)


text \<open>
  Claim C2. In gated mode (\<open>ind = False\<close>, \<open>avg = False\<close>), for a model with \<open>K \<ge> 1\<close>
  branches whose stacked logits \<open>pro\<close> have shape \<open>[B, C, K]\<close> and whose gate returns weights
  \<open>w\<close> of shape \<open>[B, K]\<close>, both forward functions return \<open>pro\<close> together with a fused matrix
  of shape \<open>[B, C]\<close> whose entry \<open>[b, c]\<close> is the sum over the branches \<open>i < K\<close> of
  \<open>w[b, i] * pro[b, c, i]\<close>.
\<close>

theorem gated_fusion_is_weighted_sum:
  assumes "has_shape3 B C K pro" and "gate self x = Inr w" and "has_shape2 B K w"
    and "num_branches self = int K" and "1 \<le> K" and "\<not> ind self" and "\<not> avg self"
  shows "(trunk self x0 = Inr x \<and> branch_logits self x = Inr pro \<longrightarrow>
            (\<exists>x_m. forward self x0 = Inr (pro, Some (T2 x_m)) \<and> has_shape2 B C x_m \<and>
               (\<forall>b<B. \<forall>c<C. x_m ! b ! c = (\<Sum>i<K. w ! b ! i * pro ! b ! c ! i)))) \<and>
         (trunk_mb self x0 = Inr x \<and> branch_logits_mb self x = Inr pro \<longrightarrow>
            (\<exists>x_m. forward_impl self x0 = Inr (pro, Some (T2 x_m)) \<and> has_shape2 B C x_m \<and>
               (\<forall>b<B. \<forall>c<C. x_m ! b ! c = (\<Sum>i<K. w ! b ! i * pro ! b ! c ! i))))"
  using assms gated_fusion_shaped[OF assms(1) assms(3) assms(5)]
  by (simp add: forward_def forward_impl_def)


theorem gated_fusion_witness:
  "has_shape3 1 2 2 [[[5, 10], [6, 12]]] \<and>
   gate (toy_densenet 2 False False False) toy_x = Inr (softmax [[5, 6]]) \<and>
   has_shape2 1 2 (softmax [[5, 6]]) \<and>
   num_branches (toy_densenet 2 False False False) = int 2 \<and>
   trunk (toy_densenet 2 False False False) toy_x = Inr toy_x \<and>
   branch_logits (toy_densenet 2 False False False) toy_x = Inr [[[5, 10], [6, 12]]] \<and>
   (\<exists>x_m. forward (toy_densenet 2 False False False) toy_x
             = Inr ([[[5, 10], [6, 12]]], Some (T2 x_m)) \<and> has_shape2 1 2 x_m \<and>
      (\<forall>b<1. \<forall>c<2. x_m ! b ! c
         = (\<Sum>i<2. softmax [[5, 6]] ! b ! i * [[[5, 10], [6, 12]]] ! b ! c ! i))) \<and>
   has_shape3 1 2 1 [[[5], [6]]] \<and>
   gate (toy_mobilenet 1 False False) toy_x = Inr (softmax [[5]]) \<and>
   has_shape2 1 1 (softmax [[5]]) \<and>
   num_branches (toy_mobilenet 1 False False) = int 1 \<and>
   trunk_mb (toy_mobilenet 1 False False) toy_x = Inr toy_x \<and>
   branch_logits_mb (toy_mobilenet 1 False False) toy_x = Inr [[[5], [6]]] \<and>
   (\<exists>x_m. forward_impl (toy_mobilenet 1 False False) toy_x
             = Inr ([[[5], [6]]], Some (T2 x_m)) \<and> has_shape2 1 2 x_m \<and>
      (\<forall>b<1. \<forall>c<2. x_m ! b ! c = (\<Sum>i<1. softmax [[5]] ! b ! i * [[[5], [6]]] ! b ! c ! i)))"
proof -
  have d: "(1::nat) \<le> 2" and m: "(1::nat) \<le> 1" by simp_all
  note D = gated_fusion_is_weighted_sum [OF toy_shapes(1) toy_densenet_gated(3) toy_shapes(4)
      toy_densenet_gated(4) d toy_densenet_gated(5,6), of toy_x]
  note M = gated_fusion_is_weighted_sum [OF toy_shapes(3) toy_mobilenet_gated(3) toy_shapes(5)
      toy_mobilenet_gated(4) m toy_mobilenet_gated(5,6), of toy_x]
  from D have D': "\<exists>x_m. forward (toy_densenet 2 False False False) toy_x
             = Inr ([[[5, 10], [6, 12]]], Some (T2 x_m)) \<and> has_shape2 1 2 x_m \<and>
      (\<forall>b<1. \<forall>c<2. x_m ! b ! c
         = (\<Sum>i<2. softmax [[5, 6]] ! b ! i * [[[5, 10], [6, 12]]] ! b ! c ! i))"
    using toy_densenet_gated(1,2) by blast
  from M have M': "\<exists>x_m. forward_impl (toy_mobilenet 1 False False) toy_x
             = Inr ([[[5], [6]]], Some (T2 x_m)) \<and> has_shape2 1 2 x_m \<and>
      (\<forall>b<1. \<forall>c<2. x_m ! b ! c = (\<Sum>i<1. softmax [[5]] ! b ! i * [[[5], [6]]] ! b ! c ! i))"
    using toy_mobilenet_gated(1,2) by blast
  show ?thesis
    using D' M' toy_shapes toy_densenet_gated toy_mobilenet_gated by (intro conjI)
qed

text \<open>
  Claim C3, as amended. In the leave-one-out mode of \<open>DenseNet\<close> (\<open>avg = True\<close>,
  \<open>ind = False\<close>) with \<open>K \<ge> 2\<close> branches and stacked logits of shape \<open>[B, C, K]\<close>, the fused
  tensor has shape \<open>[B, C, K]\<close>, and for every branch index \<open>i < K\<close>, index 0 included, its
  slot \<open>i\<close> is \<open>1 / (K - 1)\<close> times the sum of the logits of the branches other than \<open>i\<close>.
\<close>

theorem leave_one_out_all_slots:
  assumes "trunk self x0 = Inr x" and "branch_logits self x = Inr pro" and "has_shape3 B C K pro"
    and "num_branches self = int K" and "2 \<le> K" and "\<not> ind self" and "avg self"
  shows "\<exists>x_m. forward self x0 = Inr (pro, Some (T3 x_m)) \<and> has_shape3 B C K x_m \<and>
           (\<forall>b<B. \<forall>c<C. \<forall>i<K.
              x_m ! b ! c ! i = 1 / real (K - 1) * (\<Sum>j \<in> {..<K} - {i}. pro ! b ! c ! j))"
  using assms avg_fusion_shaped[OF assms(3) assms(5)]
  by (simp add: forward_def)


theorem leave_one_out_witness:
  "trunk (toy_densenet 3 False True False) toy_x = Inr toy_x \<and>
   branch_logits (toy_densenet 3 False True False) toy_x = Inr [[[5, 10, 15], [6, 12, 18]]] \<and>
   has_shape3 1 2 3 [[[5, 10, 15], [6, 12, 18]]] \<and>
   num_branches (toy_densenet 3 False True False) = int 3 \<and>
   avg (toy_densenet 3 False True False) \<and>
   (\<exists>x_m. forward (toy_densenet 3 False True False) toy_x
             = Inr ([[[5, 10, 15], [6, 12, 18]]], Some (T3 x_m)) \<and> has_shape3 1 2 3 x_m \<and>
      (\<forall>b<1. \<forall>c<2. \<forall>i<3. x_m ! b ! c ! i
         = 1 / real (3 - 1) * (\<Sum>j \<in> {..<3} - {i}. [[[5, 10, 15], [6, 12, 18]]] ! b ! c ! j)))"
proof -
  have k: "(2::nat) \<le> 3" by simp
  note A = leave_one_out_all_slots [OF toy_densenet_avg(1,2) toy_shapes(2) toy_densenet_avg(3) k
      toy_densenet_avg(4,5)]
  show ?thesis
    using A toy_shapes(2) toy_densenet_avg by (intro conjI)
qed

text \<open>
  The claim as stated fails for three branches with logits \<open>L0 = [5, 6]\<close>,
  \<open>L1 = [10, 12]\<close>, \<open>L2 = [15, 18]\<close>: the fused tensor has a last axis of size 3, not 2,
  and its index 0 holds \<open>(L1 + L2) / 2 = [25/2, 15]\<close>.
\<close>

theorem leave_one_out_counterexample:
  "forward (toy_densenet 3 False True False) toy_x
     = Inr ([[[5, 10, 15], [6, 12, 18]]], Some (T3 [[[25 / 2, 10, 15 / 2], [15, 12, 9]]])) \<and>
   \<not> has_shape3 1 2 (3 - 1) [[[25 / 2, 10, 15 / 2], [15, 12, 9]]]"
  by (simp add: toy_eval forward_def avg_fusion_def coef_def slice3_def iadd_def add2_def
      same_shape_def acc_unsqueeze_def scale_def has_shape3_def)

text \<open>
  Claim C4. A \<open>MobileNetV2\<close> that its constructor returned has no attribute \<open>avgpool\<close>.
  With two or more branches every forward call raises, and the exception is the
  AttributeError for \<open>avgpool\<close> whenever the trunk, the head of branch 0 and the layer
  \<open>layer4_1\<close> have succeeded. A forward call can return only when the branch count is 1.
\<close>

theorem mobilenet_forward_fails_beyond_one_branch:
  assumes "MobileNetV2_init mk a = Inr self"
  shows "attrs self ''avgpool'' = None \<and>
         (2 \<le> mb_num_branches a \<longrightarrow> (\<forall>x0. isl (forward_impl self x0))) \<and>
         (2 \<le> mb_num_branches a \<longrightarrow>
            (\<forall>x0 x L0 l t. trunk_mb self x0 = Inr x \<and> head0_mb self x = Inr L0 \<and>
               getattr self (''layer4_'' @ str 1) = Inr l \<and> call4 l x = Inr t \<longrightarrow>
               forward_impl self x0 = Inl (AttributeError ''avgpool''))) \<and>
         (\<forall>x0 r. forward_impl self x0 = Inr r \<longrightarrow> mb_num_branches a = 1)"
proof (intro conjI allI impI)
  note f = MobileNetV2_init_fields[OF assms]
  show "attrs self ''avgpool'' = None" by (rule f(6))
  have two: "isl (forward_impl self x0)" if "2 \<le> mb_num_branches a" for x0
    using forward_impl_two_branches(1)[of self x0] f(1,6) that by simp
  have none: "isl (forward_impl self x0)" if "mb_num_branches a \<le> 0" for x0
    using forward_impl_no_branches[of self x0] f(7) that by simp
  show "isl (forward_impl self x0)" if "2 \<le> mb_num_branches a" for x0
    using two[OF that] .
  show "forward_impl self x0 = Inl (AttributeError ''avgpool'')"
    if "2 \<le> mb_num_branches a"
      and h: "trunk_mb self x0 = Inr x \<and> head0_mb self x = Inr L0 \<and>
         getattr self (''layer4_'' @ str 1) = Inr l \<and> call4 l x = Inr t" for x0 x L0 l t
  proof -
    have "2 \<le> num_branches self" using that(1) f(1) by simp
    from forward_impl_two_branches(2)[OF f(6) this, of x0 x L0 l t] h show ?thesis by simp
  qed
  show "mb_num_branches a = 1" if r: "forward_impl self x0 = Inr r" for x0 r
  proof (rule ccontr)
    assume "mb_num_branches a \<noteq> 1"
    then have "2 \<le> mb_num_branches a \<or> mb_num_branches a \<le> 0" by arith
    then have "isl (forward_impl self x0)" using two[of x0] none[of x0] by (elim disjE)
    with r show False by simp
  qed
qed


theorem mobilenet_forward_fails_witness:
  "MobileNetV2_init toy_mk (toy_mb 2 False True) = Inr (toy_mobilenet 2 False True) \<and>
   2 \<le> mb_num_branches (toy_mb 2 False True) \<and>
   attrs (toy_mobilenet 2 False True) ''avgpool'' = None \<and>
   isl (forward_impl (toy_mobilenet 2 False True) toy_x) \<and>
   forward_impl (toy_mobilenet 1 False True) toy_x = Inr ([[[5], [6]]], None) \<and>
   mb_num_branches (toy_mb 1 False True) = 1"
proof -
  have k: "2 \<le> mb_num_branches (toy_mb 2 False True)"
    and k1: "mb_num_branches (toy_mb 1 False True) = 1"
    by (simp_all add: toy_mb_def)
  have "isl (forward_impl (toy_mobilenet 2 False True) toy_x)"
    using mobilenet_forward_fails_beyond_one_branch [OF toy_mobilenet_two(1)] k by blast
  then show ?thesis
    using toy_mobilenet_two(1,3) toy_mobilenet_one k k1 by (intro conjI)
qed


text \<open>
  Claim C6. The gate returns weights exactly when its stages succeed in this order:
  global average pooling of the trunk output and flattening to one row per batch element
  (the row of the channel means), the linear layer \<open>control_v1\<close>, the batch norm \<open>bn_v1\<close>;
  the weight of branch \<open>i\<close> is then \<open>exp (max 0 n\<^sub>i)\<close> divided by the sum of
  \<open>exp (max 0 n\<^sub>j)\<close> over the branches \<open>j\<close>, for the batch-norm output \<open>n\<close>: negative
  entries are clipped to zero before the softmax, so an output without a positive entry
  gives every branch the weight \<open>1 / K\<close>. When the weights have \<open>K \<ge> 1\<close> columns, the
  weights of every batch element are non-negative and sum to 1 (over the reals, so
  exactly). In gated mode both forward functions fuse with these weights, computed from
  the trunk output.
\<close>

theorem gate_pipeline_and_weights:
  "(gate self x = Inr w \<longleftrightarrow>
     (\<exists>p v l a bn n. adaptive_avg_pool2d x = Inr p \<and> view_rows p (length p) = Inr v \<and>
        getattr self ''control_v1'' = Inr l \<and> call2 l v = Inr a \<and>
        getattr self ''bn_v1'' = Inr bn \<and> call2 bn a = Inr n \<and>
        w = map (\<lambda>r. map (\<lambda>v. exp (max 0 v) / sum_list (map (\<lambda>u. exp (max 0 u)) r)) r) n)) \<and>
   (adaptive_avg_pool2d x = Inr p \<and> view_rows p (length p) = Inr v \<and>
    (\<forall>img \<in> set x. length img = ch) \<longrightarrow>
      v = map (map (\<lambda>pl. sum_list (concat pl) / real (length (concat pl)))) x) \<and>
   (adaptive_avg_pool2d x = Inr p \<and> view_rows p (length p) = Inr v \<and>
    getattr self ''control_v1'' = Inr l \<and> call2 l v = Inr a \<and>
    getattr self ''bn_v1'' = Inr bn \<and> call2 bn a = Inr n \<and>
    (\<forall>r \<in> set n. \<forall>u \<in> set r. u \<le> 0) \<longrightarrow>
      gate self x = Inr (map (\<lambda>r. map (\<lambda>u. 1 / real (length r)) r) n)) \<and>
   (gate self x = Inr w \<and> has_shape2 B K w \<and> 1 \<le> K \<longrightarrow>
      (\<forall>b<B. (\<forall>i<K. 0 \<le> w ! b ! i) \<and> (\<Sum>i<K. w ! b ! i) = 1)) \<and>
   (\<not> ind self \<and> \<not> avg self \<and> forward self x0 = Inr (pro, f) \<longrightarrow>
      (\<exists>x' w' x_m. trunk self x0 = Inr x' \<and> gate self x' = Inr w' \<and>
         gated_fusion w' pro (num_branches self) = Inr x_m \<and> f = Some (T2 x_m))) \<and>
   (\<not> ind self \<and> \<not> avg self \<and> forward_impl self x0 = Inr (pro, f) \<longrightarrow>
      (\<exists>x' w' x_m. trunk_mb self x0 = Inr x' \<and> gate self x' = Inr w' \<and>
         gated_fusion w' pro (num_branches self) = Inr x_m \<and> f = Some (T2 x_m)))"
proof -
  have stages: "gate self x = Inr w \<longleftrightarrow>
     (\<exists>p v l a bn n. adaptive_avg_pool2d x = Inr p \<and> view_rows p (length p) = Inr v \<and>
        getattr self ''control_v1'' = Inr l \<and> call2 l v = Inr a \<and>
        getattr self ''bn_v1'' = Inr bn \<and> call2 bn a = Inr n \<and>
        w = map (\<lambda>r. map (\<lambda>v. exp (max 0 v) / sum_list (map (\<lambda>u. exp (max 0 u)) r)) r) n)"
    using gate_stages[of self x w] unfolding softmax_relu_entries .
  have pool: "v = map (map (\<lambda>pl. sum_list (concat pl) / real (length (concat pl)))) x"
    if "adaptive_avg_pool2d x = Inr p \<and> view_rows p (length p) = Inr v \<and>
        (\<forall>img \<in> set x. length img = ch)"
    using that pooled_rows[of x p v ch] by blast
  have clip: "gate self x = Inr (map (\<lambda>r. map (\<lambda>u. 1 / real (length r)) r) n)"
    if h: "adaptive_avg_pool2d x = Inr p \<and> view_rows p (length p) = Inr v \<and>
        getattr self ''control_v1'' = Inr l \<and> call2 l v = Inr a \<and>
        getattr self ''bn_v1'' = Inr bn \<and> call2 bn a = Inr n \<and>
        (\<forall>r \<in> set n. \<forall>u \<in> set r. u \<le> 0)"
  proof -
    have "gate self x = Inr (softmax (relu n))"
      using h by (simp add: gate_def)
    moreover have "softmax (relu n) = map (\<lambda>r. map (\<lambda>u. 1 / real (length r)) r) n"
      using h by (intro softmax_relu_clipped) simp
    ultimately show ?thesis by simp
  qed
  have weights: "\<forall>b<B. (\<forall>i<K. 0 \<le> w ! b ! i) \<and> (\<Sum>i<K. w ! b ! i) = 1"
    if "gate self x = Inr w \<and> has_shape2 B K w \<and> 1 \<le> K"
    using that gate_weights[of self x w B K] by blast
  have dn: "\<exists>x' w' x_m. trunk self x0 = Inr x' \<and> gate self x' = Inr w' \<and>
         gated_fusion w' pro (num_branches self) = Inr x_m \<and> f = Some (T2 x_m)"
    if "\<not> ind self \<and> \<not> avg self \<and> forward self x0 = Inr (pro, f)"
    using that forward_gated_uses_gate(1)[of self x0 pro f] by blast
  have mb: "\<exists>x' w' x_m. trunk_mb self x0 = Inr x' \<and> gate self x' = Inr w' \<and>
         gated_fusion w' pro (num_branches self) = Inr x_m \<and> f = Some (T2 x_m)"
    if "\<not> ind self \<and> \<not> avg self \<and> forward_impl self x0 = Inr (pro, f)"
    using that forward_gated_uses_gate(2)[of self x0 pro f] by blast
  show ?thesis
    using stages pool clip weights dn mb by (intro conjI impI)
qed


text \<open>On a batch with negative entries the toy gate's batch-norm output is \<open>[-5, -4]\<close>,
  which is clipped to \<open>[0, 0]\<close>: both branches get the weight \<open>1/2\<close>. On \<open>toy_x\<close> the
  output is \<open>[5, 6]\<close> and the weights are \<open>exp 5\<close> and \<open>exp 6\<close> over their sum.\<close>

theorem gate_weights_witness:
  "adaptive_avg_pool2d [[[[-1, -3]], [[-2, -4]]]] = Inr [[[[-2]], [[-3]]]] \<and>
   view_rows [[[[-2]], [[-3]]]] (length [[[[-2::real]], [[-3]]]]) = Inr [[-2, -3]] \<and>
   list_all (\<lambda>img. length img = 2) [[[[-1, -3]], [[-2, -4::real]]]] \<and>
   [[-2, -3]] = map (map (\<lambda>pl. sum_list (concat pl) / real (length (concat pl))))
                  [[[[-1, -3]], [[-2, -4]]]] \<and>
   getattr (toy_densenet 2 False False False) ''control_v1'' = Inr (toy_mk ''control_v1'' [150, 2]) \<and>
   call2 (toy_mk ''control_v1'' [150, 2]) [[-2, -3]] = Inr [[-5, -4]] \<and>
   getattr (toy_densenet 2 False False False) ''bn_v1'' = Inr (toy_mk ''bn_v1'' [2]) \<and>
   call2 (toy_mk ''bn_v1'' [2]) [[-5, -4]] = Inr [[-5, -4]] \<and>
   list_all (list_all (\<lambda>u. u \<le> 0)) [[-5, -4::real]] \<and>
   gate (toy_densenet 2 False False False) [[[[-1, -3]], [[-2, -4]]]] = Inr [[1 / 2, 1 / 2]] \<and>
   has_shape2 1 2 [[1 / 2, 1 / 2]] \<and> (1::nat) \<le> 2 \<and>
   (0::real) \<le> [[1 / 2, 1 / 2]] ! 0 ! 0 \<and> (0::real) \<le> [[1 / 2, 1 / 2]] ! 0 ! 1 \<and>
   (\<Sum>i<2. [[1 / 2, 1 / 2 :: real]] ! 0 ! i) = 1 \<and>
   gate (toy_densenet 2 False False False) toy_x
     = Inr [[exp 5 / (exp 5 + exp 6), exp 6 / (exp 5 + exp 6)]]"
proof -
  let ?D = "toy_densenet 2 False False False"
  let ?X = "[[[[-1, -3]], [[-2, -4::real]]]]"
  have neg: "\<forall>r \<in> set [[-5, -4::real]]. \<forall>u \<in> set r. u \<le> 0"
    and ch: "\<forall>img \<in> set ?X. length img = 2"
    by simp_all
  note T = gate_pipeline_and_weights [where self = ?D and x = ?X and p = "[[[[-2]], [[-3]]]]"
      and v = "[[-2, -3]]" and ch = 2 and l = "toy_mk ''control_v1'' [150, 2]"
      and a = "[[-5, -4]]" and bn = "toy_mk ''bn_v1'' [2]" and n = "[[-5, -4]]"
      and w = "[[1 / 2, 1 / 2]]" and B = 1 and K = 2 and ?x0.0 = toy_x and pro = "[]"
      and f = None]
  note pool = T [THEN conjunct2, THEN conjunct1]
  note clip = T [THEN conjunct2, THEN conjunct2, THEN conjunct1]
  note weights = T [THEN conjunct2, THEN conjunct2, THEN conjunct2, THEN conjunct1]
  have rows: "[[-2, -3]] = map (map (\<lambda>pl. sum_list (concat pl) / real (length (concat pl)))) ?X"
    by (rule pool [rule_format]) (intro conjI toy_gate_negative(1,2) ch)
  have "gate ?D ?X = Inr (map (\<lambda>r. map (\<lambda>u. 1 / real (length r)) r) [[-5, -4::real]])"
    by (rule clip [rule_format]) (intro conjI toy_gate_negative neg)
  then have g: "gate ?D ?X = Inr [[1 / 2, 1 / 2]]"
    by simp
  have sh: "has_shape2 1 2 [[1 / 2, 1 / 2]]"
    by (simp add: has_shape2_def)
  have k: "(1::nat) \<le> 2" by simp
  have zero: "(0::nat) < 1" by simp
  have wb: "(\<forall>i<2. (0::real) \<le> [[1 / 2, 1 / 2]] ! 0 ! i) \<and>
          (\<Sum>i<2. [[1 / 2, 1 / 2 :: real]] ! 0 ! i) = 1"
    by (rule weights [rule_format, OF _ zero]) (intro conjI g sh k)
  have i0: "(0::nat) < 2" and i1: "(1::nat) < 2" by simp_all
  have w0: "(0::real) \<le> [[1 / 2, 1 / 2]] ! 0 ! 0"
    using wb [THEN conjunct1, rule_format, OF i0] .
  have w1: "(0::real) \<le> [[1 / 2, 1 / 2]] ! 0 ! 1"
    using wb [THEN conjunct1, rule_format, OF i1] .
  have pos: "gate ?D toy_x = Inr [[exp 5 / (exp 5 + exp 6), exp 6 / (exp 5 + exp 6)]]"
    unfolding toy_densenet_gated(3) by (simp add: softmax_def softmax_row_def)
  have l1: "list_all (\<lambda>img. length img = 2) ?X"
    and l2: "list_all (list_all (\<lambda>u. u \<le> 0)) [[-5, -4::real]]"
    by simp_all
  show ?thesis
    by (intro conjI toy_gate_negative l1 rows l2 g sh k w0 w1 wb [THEN conjunct2] pos)
qed


text \<open>
  Claim C7. In independent mode (\<open>ind = True\<close>) the second component of every result of
  either forward function is \<open>None\<close>, whatever the input and the other flags; and the
  forward function returns the stacked logits with \<open>None\<close> whenever the trunk and the heads
  succeed.
\<close>

theorem independent_mode_no_fused:
  assumes "ind self"
  shows "(\<forall>r. forward self x0 = Inr r \<longrightarrow> snd r = None) \<and>
         (\<forall>r. forward_impl self x0 = Inr r \<longrightarrow> snd r = None) \<and>
         (\<forall>x pro. trunk self x0 = Inr x \<and> branch_logits self x = Inr pro \<longrightarrow>
                    forward self x0 = Inr (pro, None)) \<and>
         (\<forall>x pro. trunk_mb self x0 = Inr x \<and> branch_logits_mb self x = Inr pro \<longrightarrow>
                    forward_impl self x0 = Inr (pro, None))"
  using assms by (auto simp: forward_def forward_impl_def bnd_def split: sum.splits)



theorem independent_mode_witness:
  "ind (toy_densenet 2 True False True) \<and>
   forward (toy_densenet 2 True False True) toy_x = Inr ([[[5, 10], [6, 12]]], None) \<and>
   ind (toy_mobilenet 1 False True) \<and>
   forward_impl (toy_mobilenet 1 False True) toy_x = Inr ([[[5], [6]]], None)"
  using independent_mode_no_fused [OF toy_independent(3), of toy_x]
    independent_mode_no_fused [OF toy_independent(6), of toy_x] toy_independent
  by simp

text \<open>
  Claim C8, as amended. Constructing a \<open>DenseNet\<close> with \<open>avg = True\<close> and one branch
  succeeds (for a compression in \<open>(0, 1]\<close> and a non-empty block configuration, as for every
  other branch count). With \<open>ind = False\<close> every later forward call raises; when the trunk
  and the head have succeeded the exception is an AttributeError, since \<open>x_m\<close> is still the
  integer 0 when \<open>unsqueeze\<close> is called on it. With \<open>ind = True\<close> the forward call returns.
\<close>

theorem densenet_avg_one_branch_constructs:
  assumes "dn_avg a" and "dn_num_branches a = 1"
    and "0 < dn_compression a" and "dn_compression a \<le> 1" and "dn_block_config a \<noteq> []"
  shows "\<exists>self. DenseNet_init mk a = Inr self \<and> num_branches self = 1 \<and> avg self \<and>
           (\<not> dn_ind a \<longrightarrow>
              (\<forall>x0. isl (forward self x0)) \<and>
              (\<forall>x0 x pro. trunk self x0 = Inr x \<and> branch_logits self x = Inr pro \<longrightarrow>
                 forward self x0 = Inl (AttributeError ''unsqueeze''))) \<and>
           (dn_ind a \<longrightarrow>
              (\<forall>x0 x pro. trunk self x0 = Inr x \<and> branch_logits self x = Inr pro \<longrightarrow>
                 forward self x0 = Inr (pro, None)))"
proof -
  obtain self where init: "DenseNet_init mk a = Inr self"
    using DenseNet_init_succeeds[OF assms(3-5)] by blast
  note f = DenseNet_init_fields[OF init]
  have nb: "num_branches self = 1" and av: "avg self"
    using f(1,2) assms(1,2) by simp_all
  show ?thesis
  proof (intro exI[of _ self] conjI allI impI)
    show "DenseNet_init mk a = Inr self" by (rule init)
    show "num_branches self = 1" by (rule nb)
    show "avg self" by (rule av)
    show "isl (forward self x0)" if "\<not> dn_ind a" for x0
      using forward_avg_one_branch(1)[OF nb av, of x0] that f(3) by simp
    show "forward self x0 = Inl (AttributeError ''unsqueeze'')"
      if "\<not> dn_ind a" and h: "trunk self x0 = Inr x \<and> branch_logits self x = Inr pro"
      for x0 x pro
      using forward_avg_one_branch(2)[OF nb av, of x0 x pro] that f(3) by simp
    show "forward self x0 = Inr (pro, None)"
      if "dn_ind a" and h: "trunk self x0 = Inr x \<and> branch_logits self x = Inr pro"
      for x0 x pro
      using that f(3) by (simp add: forward_def)
  qed
qed


theorem densenet_avg_one_branch_witness:
  "dn_avg (toy_dn 1 False True False) \<and> dn_num_branches (toy_dn 1 False True False) = 1 \<and>
   0 < dn_compression (toy_dn 1 False True False) \<and>
   dn_compression (toy_dn 1 False True False) \<le> 1 \<and>
   dn_block_config (toy_dn 1 False True False) \<noteq> [] \<and>
   (\<exists>self. DenseNet_init toy_mk (toy_dn 1 False True False) = Inr self \<and>
      num_branches self = 1 \<and> avg self \<and>
      (\<not> dn_ind (toy_dn 1 False True False) \<longrightarrow>
         (\<forall>x0. isl (forward self x0)) \<and>
         (\<forall>x0 x pro. trunk self x0 = Inr x \<and> branch_logits self x = Inr pro \<longrightarrow>
            forward self x0 = Inl (AttributeError ''unsqueeze''))) \<and>
      (dn_ind (toy_dn 1 False True False) \<longrightarrow>
         (\<forall>x0 x pro. trunk self x0 = Inr x \<and> branch_logits self x = Inr pro \<longrightarrow>
            forward self x0 = Inr (pro, None))))"
proof -
  have h: "dn_avg (toy_dn 1 False True False)" "dn_num_branches (toy_dn 1 False True False) = 1"
    "0 < dn_compression (toy_dn 1 False True False)"
    "dn_compression (toy_dn 1 False True False) \<le> 1"
    "dn_block_config (toy_dn 1 False True False) \<noteq> []"
    by (simp_all add: toy_dn_def)
  show ?thesis
    using h densenet_avg_one_branch_constructs [OF h, of toy_mk] by (intro conjI)
qed


text \<open>The claim as stated fails: with \<open>avg = True\<close>, one branch, two classes and the other
  arguments at their defaults the constructor returns a model, and the failure comes with
  the forward call.\<close>

theorem densenet_avg_one_branch_counterexample:
  "\<not> isl (DenseNet_init toy_mk (toy_dn 1 False True False)) \<and>
   avg (toy_densenet 1 False True False) \<and>
   num_branches (toy_densenet 1 False True False) = 1 \<and>
   forward (toy_densenet 1 False True False) toy_x = Inl (AttributeError ''unsqueeze'')"
  by (simp add: toy_eval forward_def avg_fusion_def acc_unsqueeze_def)


text \<open>
  Claim C9, as amended. On a constructed \<open>DenseNet\<close> or \<open>MobileNetV2\<close> the gate layers
  \<open>control_v1\<close> and \<open>bn_v1\<close> exist if and only if \<open>avg\<close> is false; the flag \<open>ind\<close> plays no
  part.
\<close>

theorem gate_built_iff_not_avg:
  "(DenseNet_init mk a = Inr self \<longrightarrow>
      (attrs self ''control_v1'' \<noteq> None) = (\<not> dn_avg a) \<and>
      (attrs self ''bn_v1'' \<noteq> None) = (\<not> dn_avg a)) \<and>
   (MobileNetV2_init mk b = Inr self' \<longrightarrow>
      (attrs self' ''control_v1'' \<noteq> None) = (\<not> mb_avg b) \<and>
      (attrs self' ''bn_v1'' \<noteq> None) = (\<not> mb_avg b))"
proof (intro conjI impI)
  assume d: "DenseNet_init mk a = Inr self"
  show "(attrs self ''control_v1'' \<noteq> None) = (\<not> dn_avg a)"
    by (rule DenseNet_init_fields(5)[OF d])
  show "(attrs self ''bn_v1'' \<noteq> None) = (\<not> dn_avg a)"
    by (rule DenseNet_init_fields(6)[OF d])
next
  assume m: "MobileNetV2_init mk b = Inr self'"
  show "(attrs self' ''control_v1'' \<noteq> None) = (\<not> mb_avg b)"
    by (rule MobileNetV2_init_fields(4)[OF m])
  show "(attrs self' ''bn_v1'' \<noteq> None) = (\<not> mb_avg b)"
    by (rule MobileNetV2_init_fields(5)[OF m])
qed


theorem gate_built_witness:
  "DenseNet_init toy_mk (toy_dn 3 False False True) = Inr (toy_densenet 3 False False True) \<and>
   attrs (toy_densenet 3 False False True) ''control_v1'' \<noteq> None \<and>
   attrs (toy_densenet 3 False False True) ''bn_v1'' \<noteq> None \<and>
   \<not> dn_avg (toy_dn 3 False False True) \<and>
   MobileNetV2_init toy_mk (toy_mb 2 False True) = Inr (toy_mobilenet 2 False True) \<and>
   attrs (toy_mobilenet 2 False True) ''control_v1'' \<noteq> None \<and>
   \<not> mb_avg (toy_mb 2 False True)"
proof -
  have d: "DenseNet_init toy_mk (toy_dn 3 False False True) = Inr (toy_densenet 3 False False True)"
    using DenseNet_init_succeeds [of "toy_dn 3 False False True" toy_mk]
    by (auto simp: toy_densenet_def toy_dn_def)
  have m: "MobileNetV2_init toy_mk (toy_mb 2 False True) = Inr (toy_mobilenet 2 False True)"
    by (rule toy_mobilenet_two(1))
  have a: "\<not> dn_avg (toy_dn 3 False False True)" "\<not> mb_avg (toy_mb 2 False True)"
    by (simp_all add: toy_dn_def toy_mb_def)
  show ?thesis
    using gate_built_iff_not_avg [of toy_mk "toy_dn 3 False False True"
        "toy_densenet 3 False False True" "toy_mb 2 False True" "toy_mobilenet 2 False True"]
      d m a
    by simp
qed


text \<open>The claim as stated fails: a \<open>DenseNet\<close> in independent mode (\<open>ind = True\<close>,
  \<open>avg = False\<close>) has both gate layers.\<close>

theorem gate_built_in_independent_mode_counterexample:
  "\<not> isl (DenseNet_init toy_mk (toy_dn 3 False False True)) \<and>
   ind (toy_densenet 3 False False True) \<and>
   attrs (toy_densenet 3 False False True) ''control_v1'' \<noteq> None \<and>
   attrs (toy_densenet 3 False False True) ''bn_v1'' \<noteq> None"
  by (simp add: toy_eval)


text \<open>
  Claim C10, as amended. When at least one branch is to be built, constructing a
  \<open>MutualNet\<close> with a family name outside the recognised ones raises
  \<open>NotImplementedError\<close> carrying that name, before any student is constructed. With a
  branch count of 0 or less the name is never looked at and the constructor returns a
  model without students.
\<close>

theorem unknown_family_raises_when_a_branch_is_built:
  "(model \<notin> set families \<and> 1 \<le> n \<longrightarrow>
      MutualNet_init z model n num_classes dropout = Inl (NotImplementedError model)) \<and>
   (n \<le> 0 \<longrightarrow>
      MutualNet_init z model n num_classes dropout
        = Inr \<lparr>mn_num_branches = n, students = Map.empty\<rparr>)"
proof (intro conjI impI)
  assume h: "model \<notin> set families \<and> 1 \<le> n"
  then have "[0..<nat n] = 0 # [1..<nat n]"
    by (simp add: upt_conv_Cons)
  then show "MutualNet_init z model n num_classes dropout = Inl (NotImplementedError model)"
    by (simp only: MutualNet_init_def MutualNet_loop_unknown[OF conjunct1[OF h]])
next
  assume "n \<le> 0"
  then show "MutualNet_init z model n num_classes dropout
        = Inr \<lparr>mn_num_branches = n, students = Map.empty\<rparr>"
    by (simp add: MutualNet_init_def)
qed


theorem unknown_family_witness:
  "''resnet32'' \<notin> set families \<and> (1::int) \<le> 4 \<and>
   MutualNet_init toy_zoo ''resnet32'' 4 10 0 = Inl (NotImplementedError ''resnet32'') \<and>
   MutualNet_init toy_zoo ''resnet32'' 0 10 0 = Inr \<lparr>mn_num_branches = 0, students = Map.empty\<rparr>"
  using unknown_family_raises_when_a_branch_is_built [of "''resnet32''" 4 toy_zoo 10 0]
    unknown_family_raises_when_a_branch_is_built [of "''resnet32''" 0 toy_zoo 10 0]
  by (simp add: families_def)


text \<open>The claim as stated fails for a branch count of 0: the unrecognised default name
  \<open>resnet32\<close> is accepted.\<close>

theorem unknown_family_no_branch_counterexample:
  "''resnet32'' \<notin> set families \<and>
   MutualNet_init toy_zoo ''resnet32'' 0 10 0 = Inr \<lparr>mn_num_branches = 0, students = Map.empty\<rparr>"
  by (simp add: families_def MutualNet_init_def)


end
